theory Spec2Isabelle
  imports Complex_Main "HOL-Library.Word" "HOL-Library.Signed_Division"
begin

section \<open>Numbers, vectors, matrices and buffers\<close>

text \<open>
  The kernels of \<^verbatim>\<open>cuda_rasterizer/backward.cu\<close> compute on IEEE single-precision
  numbers. The embedding idealises \<^verbatim>\<open>float\<close> as \<^typ>\<open>real\<close>: rounding, overflow to
  infinity and NaN are outside the model, so every statement below is about the exact
  arithmetic the kernels approximate. Control flow, buffer writes and index arithmetic
  are as in the source. \<^verbatim>\<open>uint32_t\<close> values are \<^typ>\<open>32 word\<close>, \<^verbatim>\<open>int\<close> values are
  \<^typ>\<open>int\<close> (signed overflow is undefined behaviour in C++ and is not modelled),
  and a device buffer is a function from the element offset to the element. A division
  by exactly zero, which yields an infinity or a NaN in the kernel, has the value 0 in
  HOL; a statement about such a division names its denominator and does not rely on
  the quotient.
\<close>

type_synonym float = real

datatype float2 = float2 (x2: float) (y2: float)
datatype float3 = float3 (x3: float) (y3: float) (z3: float)
datatype float4 = float4 (x4: float) (y4: float) (z4: float) (w4: float)

text \<open>\<^verbatim>\<open>glm::vec3\<close> and \<^verbatim>\<open>float3\<close> share their layout and are cast to each other by the
  source; both are \<^typ>\<open>float3\<close>, with the component-wise arithmetic of glm.\<close>

instantiation float3 :: real_vector
begin

definition zero_float3 :: float3 where
  "zero_float3 = float3 0 0 0"

definition plus_float3 :: "float3 \<Rightarrow> float3 \<Rightarrow> float3" where
  "plus_float3 a b = float3 (x3 a + x3 b) (y3 a + y3 b) (z3 a + z3 b)"

definition minus_float3 :: "float3 \<Rightarrow> float3 \<Rightarrow> float3" where
  "minus_float3 a b = float3 (x3 a - x3 b) (y3 a - y3 b) (z3 a - z3 b)"

definition uminus_float3 :: "float3 \<Rightarrow> float3" where
  "uminus_float3 a = float3 (- x3 a) (- y3 a) (- z3 a)"

definition scaleR_float3 :: "real \<Rightarrow> float3 \<Rightarrow> float3" where
  "scaleR_float3 k a = float3 (k * x3 a) (k * y3 a) (k * z3 a)"

instance
  by standard
    (simp_all add: zero_float3_def plus_float3_def minus_float3_def uminus_float3_def
      scaleR_float3_def algebra_simps)

end

definition glm_dot :: "float3 \<Rightarrow> float3 \<Rightarrow> float" where
  "glm_dot a b = x3 a * x3 b + y3 a * y3 b + z3 a * z3 b"

definition glm_length :: "float3 \<Rightarrow> float" where
  "glm_length a = sqrt (x3 a * x3 a + y3 a * y3 a + z3 a * z3 a)"

text \<open>A \<^verbatim>\<open>glm::mat3\<close> is column-major: \<^verbatim>\<open>M[i]\<close> is column \<open>i\<close> and \<^verbatim>\<open>M[i][j]\<close> its
  row \<open>j\<close>; the nine-argument constructor takes the columns one after the other. The
  matrix is the function \<open>M i j\<close>.\<close>

type_synonym mat3 = "nat \<Rightarrow> nat \<Rightarrow> float"

definition mat3 ::
  "float \<Rightarrow> float \<Rightarrow> float \<Rightarrow> float \<Rightarrow> float \<Rightarrow> float \<Rightarrow> float \<Rightarrow> float \<Rightarrow> float \<Rightarrow> mat3" where
  "mat3 a0 a1 a2 b0 b1 b2 c0 c1 c2 = (\<lambda>i j.
     if i = 0 then (if j = 0 then a0 else if j = 1 then a1 else a2)
     else if i = 1 then (if j = 0 then b0 else if j = 1 then b1 else b2)
     else (if j = 0 then c0 else if j = 1 then c1 else c2))"

definition glm_mul :: "mat3 \<Rightarrow> mat3 \<Rightarrow> mat3" where
  "glm_mul A B = (\<lambda>i j. A 0 j * B i 0 + A 1 j * B i 1 + A 2 j * B i 2)"

definition glm_transpose :: "mat3 \<Rightarrow> mat3" where
  "glm_transpose A = (\<lambda>i j. A j i)"

definition glm_scale :: "float \<Rightarrow> mat3 \<Rightarrow> mat3" where
  "glm_scale k A = (\<lambda>i j. k * A i j)"

definition col_dot :: "(nat \<Rightarrow> float) \<Rightarrow> (nat \<Rightarrow> float) \<Rightarrow> float" where
  "col_dot u v = u 0 * v 0 + u 1 * v 1 + u 2 * v 2"

definition sq :: "float \<Rightarrow> float" where
  "sq x = x * x"

text \<open>Reading and writing a flat \<^verbatim>\<open>float*\<close> buffer through a \<^verbatim>\<open>glm::vec3*\<close> cast.\<close>

definition vec3_at :: "(int \<Rightarrow> float) \<Rightarrow> int \<Rightarrow> float3" where
  "vec3_at a i = float3 (a (3 * i)) (a (3 * i + 1)) (a (3 * i + 2))"

definition vec3_store :: "(int \<Rightarrow> float) \<Rightarrow> int \<Rightarrow> float3 \<Rightarrow> (int \<Rightarrow> float)" where
  "vec3_store a i v = a(3 * i := x3 v, 3 * i + 1 := y3 v, 3 * i + 2 := z3 v)"

text \<open>
  \<^verbatim>\<open>auxiliary.h\<close> and \<^verbatim>\<open>config.h\<close> are not among the sources at hand. The constants,
  tables and helpers the kernels take from them are the fields of this record, a
  parameter of every kernel.
\<close>

record auxiliary =
  SH_C0 :: float
  SH_C1 :: float
  SH_C2 :: "nat \<Rightarrow> float"
  SH_C3 :: "nat \<Rightarrow> float"
  dnormvdv :: "float3 \<Rightarrow> float3 \<Rightarrow> float3"
  transformPoint4x3 :: "float3 \<Rightarrow> (int \<Rightarrow> float) \<Rightarrow> float3"
  transformPoint4x4 :: "float3 \<Rightarrow> (int \<Rightarrow> float) \<Rightarrow> float4"
  transformVec4x3Transpose :: "float3 \<Rightarrow> (int \<Rightarrow> float) \<Rightarrow> float3"
  BLOCK_X :: int
  BLOCK_Y :: int
  BLOCK_SIZE :: int

text \<open>The gradient buffers the backward pass writes.\<close>

record grad_buffers =
  dL_dmean2D :: "int \<Rightarrow> float4"
  dL_dconic2D :: "int \<Rightarrow> float4"
  dL_dopacity :: "int \<Rightarrow> float"
  dL_dcolors :: "int \<Rightarrow> float"
  dL_dinvdepths :: "int \<Rightarrow> float"
  dL_dmeans :: "int \<Rightarrow> float3"
  dL_dcov :: "int \<Rightarrow> float"
  dL_ddc :: "int \<Rightarrow> float"
  dL_dsh :: "int \<Rightarrow> float"
  dL_dscales :: "int \<Rightarrow> float3"
  dL_drots :: "int \<Rightarrow> float4"

section \<open>Covariance3DBackward: \<^verbatim>\<open>computeCov3D\<close>\<close>

text \<open>The rotation matrix the kernel rebuilds from the quaternion \<open>(r, x, y, z)\<close>,
  which it does not normalise (lines 331 to 341).\<close>

definition quat_R :: "float \<Rightarrow> float \<Rightarrow> float \<Rightarrow> float \<Rightarrow> mat3" where
  "quat_R r x y z = mat3
     (1 - 2 * (y * y + z * z)) (2 * (x * y - r * z)) (2 * (x * z + r * y))
     (2 * (x * y + r * z)) (1 - 2 * (x * x + z * z)) (2 * (y * z - r * x))
     (2 * (x * z - r * y)) (2 * (y * z + r * x)) (1 - 2 * (x * x + y * y))"

text \<open>\<open>S\<close> is the identity with the diagonal overwritten by \<open>s = modifier * scale\<close> (the source's \<^verbatim>\<open>mod\<close>)
  (lines 343 to 348).\<close>

definition scale_S :: "float3 \<Rightarrow> mat3" where
  "scale_S s = mat3 (x3 s) 0 0 0 (y3 s) 0 0 0 (z3 s)"

text \<open>Lines 352 to 369: the six stored gradient entries in matrix form, the gradient
  with respect to \<open>M = S * R\<close>, and its transpose.\<close>

definition cov3D_dL_dSigma :: "(int \<Rightarrow> float) \<Rightarrow> int \<Rightarrow> mat3" where
  "cov3D_dL_dSigma dL_dcov3Ds idx =
     (let dL_dcov3D = (\<lambda>k. dL_dcov3Ds (6 * idx + k)) in
      mat3
        (dL_dcov3D 0) (0.5 * dL_dcov3D 1) (0.5 * dL_dcov3D 2)
        (0.5 * dL_dcov3D 1) (dL_dcov3D 3) (0.5 * dL_dcov3D 4)
        (0.5 * dL_dcov3D 2) (0.5 * dL_dcov3D 4) (dL_dcov3D 5))"

definition cov3D_dL_dM :: "mat3 \<Rightarrow> mat3 \<Rightarrow> mat3" where
  "cov3D_dL_dM M dL_dSigma = glm_mul (glm_scale 2 M) dL_dSigma"

text \<open>Lines 377 to 379: column \<open>i\<close> of the transposed gradient is scaled by \<open>s\<close>'s
  component \<open>i\<close>.\<close>

definition scale_columns :: "float3 \<Rightarrow> mat3 \<Rightarrow> mat3" where
  "scale_columns s A = (\<lambda>i j.
     if i = 0 then A 0 j * x3 s else if i = 1 then A 1 j * y3 s
     else if i = 2 then A 2 j * z3 s else A i j)"

text \<open>Lines 382 to 386: the quaternion gradient from the scaled transposed gradient.\<close>

definition cov3D_dL_dq :: "float \<Rightarrow> float \<Rightarrow> float \<Rightarrow> float \<Rightarrow> mat3 \<Rightarrow> float4" where
  "cov3D_dL_dq r x y z dL_dMt = float4
     (2 * z * (dL_dMt 0 1 - dL_dMt 1 0) + 2 * y * (dL_dMt 2 0 - dL_dMt 0 2)
        + 2 * x * (dL_dMt 1 2 - dL_dMt 2 1))
     (2 * y * (dL_dMt 1 0 + dL_dMt 0 1) + 2 * z * (dL_dMt 2 0 + dL_dMt 0 2)
        + 2 * r * (dL_dMt 1 2 - dL_dMt 2 1) - 4 * x * (dL_dMt 2 2 + dL_dMt 1 1))
     (2 * x * (dL_dMt 1 0 + dL_dMt 0 1) + 2 * r * (dL_dMt 2 0 - dL_dMt 0 2)
        + 2 * z * (dL_dMt 1 2 + dL_dMt 2 1) - 4 * y * (dL_dMt 2 2 + dL_dMt 0 0))
     (2 * r * (dL_dMt 0 1 - dL_dMt 1 0) + 2 * x * (dL_dMt 2 0 + dL_dMt 0 2)
        + 2 * y * (dL_dMt 1 2 + dL_dMt 2 1) - 4 * z * (dL_dMt 1 1 + dL_dMt 0 0))"

definition computeCov3D ::
  "int \<Rightarrow> float3 \<Rightarrow> float \<Rightarrow> float4 \<Rightarrow> (int \<Rightarrow> float) \<Rightarrow> grad_buffers \<Rightarrow> grad_buffers" where
  "computeCov3D idx scale modifier rot dL_dcov3Ds b =
     (let q = rot;
          r = x4 q; x = y4 q; y = z4 q; z = w4 q;
          R = quat_R r x y z;
          s = modifier *\<^sub>R scale;
          S = scale_S s;
          M = glm_mul S R;
          dL_dSigma = cov3D_dL_dSigma dL_dcov3Ds idx;
          dL_dM = cov3D_dL_dM M dL_dSigma;
          Rt = glm_transpose R;
          dL_dMt = glm_transpose dL_dM;
          dL_dscale = float3 (col_dot (Rt 0) (dL_dMt 0)) (col_dot (Rt 1) (dL_dMt 1))
                        (col_dot (Rt 2) (dL_dMt 2));
          dL_dMt' = scale_columns s dL_dMt;
          dL_dq = cov3D_dL_dq r x y z dL_dMt'
      in b\<lparr>dL_dscales := (dL_dscales b)(idx := dL_dscale),
           dL_drots := (dL_drots b)(idx := float4 (x4 dL_dq) (y4 dL_dq) (z4 dL_dq) (w4 dL_dq))\<rparr>)"

text \<open>The pairing under which a matrix of partial derivatives acts on a matrix:
  the sum of the products of corresponding entries.\<close>

definition contract3 :: "mat3 \<Rightarrow> mat3 \<Rightarrow> float" where
  "contract3 A B = (\<Sum>i<3. \<Sum>j<3. A i j * B i j)"

section \<open>SphericalHarmonicsBackward: \<^verbatim>\<open>computeColorFromSH\<close>\<close>

text \<open>The three nested degree blocks (lines 54 to 130). Each returns the values it
  stores into \<^verbatim>\<open>dL_dsh\<close>, in order, and what it contributes to \<^verbatim>\<open>dRGBdx\<close>,
  \<^verbatim>\<open>dRGBdy\<close> and \<^verbatim>\<open>dRGBdz\<close>. A product of scalars and one \<^verbatim>\<open>glm::vec3\<close> is written
  with the scalars collected in front of the vector.\<close>

definition sh_deg1 ::
  "auxiliary \<Rightarrow> float \<Rightarrow> float \<Rightarrow> float \<Rightarrow> (int \<Rightarrow> float3) \<Rightarrow> float3
     \<Rightarrow> float3 list \<times> float3 \<times> float3 \<times> float3" where
  "sh_deg1 aux x y z sh dL_dRGB =
     (let dRGBdsh1 = - SH_C1 aux * y;
          dRGBdsh2 = SH_C1 aux * z;
          dRGBdsh3 = - SH_C1 aux * x
      in ([dRGBdsh1 *\<^sub>R dL_dRGB, dRGBdsh2 *\<^sub>R dL_dRGB, dRGBdsh3 *\<^sub>R dL_dRGB],
          (- SH_C1 aux) *\<^sub>R sh 2,
          (- SH_C1 aux) *\<^sub>R sh 0,
          SH_C1 aux *\<^sub>R sh 1))"

definition sh_deg2 ::
  "auxiliary \<Rightarrow> float \<Rightarrow> float \<Rightarrow> float \<Rightarrow> (int \<Rightarrow> float3) \<Rightarrow> float3
     \<Rightarrow> float3 list \<times> float3 \<times> float3 \<times> float3" where
  "sh_deg2 aux x y z sh dL_dRGB =
     (let xx = x * x; yy = y * y; zz = z * z;
          xy = x * y; yz = y * z; xz = x * z;
          dRGBdsh4 = SH_C2 aux 0 * xy;
          dRGBdsh5 = SH_C2 aux 1 * yz;
          dRGBdsh6 = SH_C2 aux 2 * (2 * zz - xx - yy);
          dRGBdsh7 = SH_C2 aux 3 * xz;
          dRGBdsh8 = SH_C2 aux 4 * (xx - yy)
      in ([dRGBdsh4 *\<^sub>R dL_dRGB, dRGBdsh5 *\<^sub>R dL_dRGB, dRGBdsh6 *\<^sub>R dL_dRGB,
           dRGBdsh7 *\<^sub>R dL_dRGB, dRGBdsh8 *\<^sub>R dL_dRGB],
          (SH_C2 aux 0 * y) *\<^sub>R sh 3 + (SH_C2 aux 2 * 2 * - x) *\<^sub>R sh 5
            + (SH_C2 aux 3 * z) *\<^sub>R sh 6 + (SH_C2 aux 4 * 2 * x) *\<^sub>R sh 7,
          (SH_C2 aux 0 * x) *\<^sub>R sh 3 + (SH_C2 aux 1 * z) *\<^sub>R sh 4
            + (SH_C2 aux 2 * 2 * - y) *\<^sub>R sh 5 + (SH_C2 aux 4 * 2 * - y) *\<^sub>R sh 7,
          (SH_C2 aux 1 * y) *\<^sub>R sh 4 + (SH_C2 aux 2 * 2 * 2 * z) *\<^sub>R sh 5
            + (SH_C2 aux 3 * x) *\<^sub>R sh 6))"

definition sh_deg3 ::
  "auxiliary \<Rightarrow> float \<Rightarrow> float \<Rightarrow> float \<Rightarrow> (int \<Rightarrow> float3) \<Rightarrow> float3
     \<Rightarrow> float3 list \<times> float3 \<times> float3 \<times> float3" where
  "sh_deg3 aux x y z sh dL_dRGB =
     (let xx = x * x; yy = y * y; zz = z * z;
          xy = x * y; yz = y * z; xz = x * z;
          dRGBdsh9 = SH_C3 aux 0 * y * (3 * xx - yy);
          dRGBdsh10 = SH_C3 aux 1 * xy * z;
          dRGBdsh11 = SH_C3 aux 2 * y * (4 * zz - xx - yy);
          dRGBdsh12 = SH_C3 aux 3 * z * (2 * zz - 3 * xx - 3 * yy);
          dRGBdsh13 = SH_C3 aux 4 * x * (4 * zz - xx - yy);
          dRGBdsh14 = SH_C3 aux 5 * z * (xx - yy);
          dRGBdsh15 = SH_C3 aux 6 * x * (xx - 3 * yy)
      in ([dRGBdsh9 *\<^sub>R dL_dRGB, dRGBdsh10 *\<^sub>R dL_dRGB, dRGBdsh11 *\<^sub>R dL_dRGB,
           dRGBdsh12 *\<^sub>R dL_dRGB, dRGBdsh13 *\<^sub>R dL_dRGB, dRGBdsh14 *\<^sub>R dL_dRGB,
           dRGBdsh15 *\<^sub>R dL_dRGB],
          (SH_C3 aux 0 * 3 * 2 * xy) *\<^sub>R sh 8
            + (SH_C3 aux 1 * yz) *\<^sub>R sh 9
            + (SH_C3 aux 2 * - 2 * xy) *\<^sub>R sh 10
            + (SH_C3 aux 3 * - 3 * 2 * xz) *\<^sub>R sh 11
            + (SH_C3 aux 4 * (- 3 * xx + 4 * zz - yy)) *\<^sub>R sh 12
            + (SH_C3 aux 5 * 2 * xz) *\<^sub>R sh 13
            + (SH_C3 aux 6 * 3 * (xx - yy)) *\<^sub>R sh 14,
          (SH_C3 aux 0 * 3 * (xx - yy)) *\<^sub>R sh 8
            + (SH_C3 aux 1 * xz) *\<^sub>R sh 9
            + (SH_C3 aux 2 * (- 3 * yy + 4 * zz - xx)) *\<^sub>R sh 10
            + (SH_C3 aux 3 * - 3 * 2 * yz) *\<^sub>R sh 11
            + (SH_C3 aux 4 * - 2 * xy) *\<^sub>R sh 12
            + (SH_C3 aux 5 * - 2 * yz) *\<^sub>R sh 13
            + (SH_C3 aux 6 * - 3 * 2 * xy) *\<^sub>R sh 14,
          (SH_C3 aux 1 * xy) *\<^sub>R sh 9
            + (SH_C3 aux 2 * 4 * 2 * yz) *\<^sub>R sh 10
            + (SH_C3 aux 3 * 3 * (2 * zz - xx - yy)) *\<^sub>R sh 11
            + (SH_C3 aux 4 * 4 * 2 * xz) *\<^sub>R sh 12
            + (SH_C3 aux 5 * (xx - yy)) *\<^sub>R sh 13))"

text \<open>Lines 54 to 130 as a whole, for the degree \<open>deg\<close>: the vectors stored at
  \<^verbatim>\<open>dL_dsh[0]\<close>, \<^verbatim>\<open>dL_dsh[1]\<close>, ... in order, and the three direction partials.\<close>

definition sh_blocks ::
  "auxiliary \<Rightarrow> int \<Rightarrow> float \<Rightarrow> float \<Rightarrow> float \<Rightarrow> (int \<Rightarrow> float3) \<Rightarrow> float3
     \<Rightarrow> float3 list \<times> float3 \<times> float3 \<times> float3" where
  "sh_blocks aux deg x y z sh dL_dRGB =
     (if deg > 0 then
        (case sh_deg1 aux x y z sh dL_dRGB of (w1, ax, ay, az) \<Rightarrow>
           if deg > 1 then
             (case sh_deg2 aux x y z sh dL_dRGB of (w2, bx, by, bz) \<Rightarrow>
                if deg > 2 then
                  (case sh_deg3 aux x y z sh dL_dRGB of (w3, cx, cy, cz) \<Rightarrow>
                     (w1 @ w2 @ w3, ax + bx + cx, ay + by + cy, az + bz + cz))
                else (w1 @ w2, ax + bx, ay + by, az + bz))
           else (w1, ax, ay, az))
      else ([], 0, 0, 0))"

text \<open>Lines 26 to 45 and 135 to 138: the clamped colour gradient, the stores into
  \<^verbatim>\<open>dL_dsh\<close>, and the vector that line 143 adds to the mean gradient: the direction
  gradient pushed through the normalisation.\<close>

definition sh_thread ::
  "auxiliary \<Rightarrow> int \<Rightarrow> int \<Rightarrow> int \<Rightarrow> (int \<Rightarrow> float3) \<Rightarrow> float3 \<Rightarrow> (int \<Rightarrow> float)
     \<Rightarrow> (int \<Rightarrow> bool) \<Rightarrow> (int \<Rightarrow> float3) \<Rightarrow> float3 \<times> float3 list \<times> float3" where
  "sh_thread aux idx deg max_coeffs means campos shs clamped dL_dcolor =
     (let pos = means idx;
          dir_orig = pos - campos;
          len = glm_length dir_orig;
          dir = float3 (x3 dir_orig / len) (y3 dir_orig / len) (z3 dir_orig / len);
          sh = (\<lambda>k. vec3_at shs (idx * max_coeffs + k));
          dL_dRGB0 = dL_dcolor idx;
          dL_dRGB = float3
            (x3 dL_dRGB0 * (if clamped (3 * idx + 0) then 0 else 1))
            (y3 dL_dRGB0 * (if clamped (3 * idx + 1) then 0 else 1))
            (z3 dL_dRGB0 * (if clamped (3 * idx + 2) then 0 else 1));
          x = x3 dir; y = y3 dir; z = z3 dir
      in (case sh_blocks aux deg x y z sh dL_dRGB of
            (stores, dRGBdx, dRGBdy, dRGBdz) \<Rightarrow>
              let dL_ddir = float3 (glm_dot dRGBdx dL_dRGB) (glm_dot dRGBdy dL_dRGB)
                              (glm_dot dRGBdz dL_dRGB);
                  dL_dmean = dnormvdv aux
                    (float3 (x3 dir_orig) (y3 dir_orig) (z3 dir_orig))
                    (float3 (x3 dL_ddir) (y3 dL_ddir) (z3 dL_ddir))
              in (dL_dRGB, stores, float3 (x3 dL_dmean) (y3 dL_dmean) (z3 dL_dmean))))"

text \<open>Storing a run of vectors at consecutive \<^verbatim>\<open>glm::vec3\<close> slots from slot \<open>k\<close>.\<close>

fun store_run :: "(int \<Rightarrow> float) \<Rightarrow> int \<Rightarrow> float3 list \<Rightarrow> (int \<Rightarrow> float)" where
  "store_run a k [] = a"
| "store_run a k (v # vs) = store_run (vec3_store a k v) (k + 1) vs"

text \<open>\<^verbatim>\<open>computeColorFromSH\<close>. The caller passes its flat \<^verbatim>\<open>dL_ddc\<close> and \<^verbatim>\<open>dL_dsh\<close>
  buffers cast to \<^verbatim>\<open>glm::vec3*\<close>; the stores go through that view, \<^verbatim>\<open>dL_dsh\<close> pointing
  at slot \<open>idx * max_coeffs\<close>. Line 53 stores the direct-colour gradient, line 143 adds
  to the mean gradient.\<close>

definition computeColorFromSH ::
  "auxiliary \<Rightarrow> int \<Rightarrow> int \<Rightarrow> int \<Rightarrow> (int \<Rightarrow> float3) \<Rightarrow> float3 \<Rightarrow> (int \<Rightarrow> float)
     \<Rightarrow> (int \<Rightarrow> float) \<Rightarrow> (int \<Rightarrow> bool) \<Rightarrow> (int \<Rightarrow> float3) \<Rightarrow> grad_buffers \<Rightarrow> grad_buffers" where
  "computeColorFromSH aux idx deg max_coeffs means campos dc shs clamped dL_dcolor b =
     (case sh_thread aux idx deg max_coeffs means campos shs clamped dL_dcolor of
        (dL_dRGB, stores, dL_dmean) \<Rightarrow>
          b\<lparr>dL_ddc := vec3_store (dL_ddc b) idx (SH_C0 aux *\<^sub>R dL_dRGB),
            dL_dsh := store_run (dL_dsh b) (idx * max_coeffs) stores,
            dL_dmeans := (dL_dmeans b)(idx := dL_dmeans b idx + dL_dmean)\<rparr>)"

section \<open>CovarianceBackward: \<^verbatim>\<open>computeCov2DCUDA\<close>\<close>

text \<open>Lines 177 to 185: the frustum clamp of the camera-space point and the two
  gradient masks.\<close>

definition ray_clamp :: "float \<Rightarrow> float \<Rightarrow> float3 \<Rightarrow> float3 \<times> float \<times> float" where
  "ray_clamp tan_fovx tan_fovy t =
     (let limx = 1.3 * tan_fovx;
          limy = 1.3 * tan_fovy;
          txtz = x3 t / z3 t;
          tytz = y3 t / z3 t;
          tx = min limx (max (- limx) txtz) * z3 t;
          ty = min limy (max (- limy) tytz) * z3 t;
          x_grad_mul = (if txtz < - limx \<or> txtz > limx then 0 else 1);
          y_grad_mul = (if tytz < - limy \<or> tytz > limy then 0 else 1)
      in (float3 tx ty (z3 t), x_grad_mul, y_grad_mul))"

text \<open>Lines 187 to 203: the Jacobian, the camera rotation, the 3D covariance and the
  projected 2D covariance.\<close>

definition cov2D_J :: "float \<Rightarrow> float \<Rightarrow> float3 \<Rightarrow> mat3" where
  "cov2D_J h_x h_y t = mat3
     (h_x / z3 t) 0 (- (h_x * x3 t) / (z3 t * z3 t))
     0 (h_y / z3 t) (- (h_y * y3 t) / (z3 t * z3 t))
     0 0 0"

definition cov2D_W :: "(int \<Rightarrow> float) \<Rightarrow> mat3" where
  "cov2D_W view_matrix = mat3
     (view_matrix 0) (view_matrix 4) (view_matrix 8)
     (view_matrix 1) (view_matrix 5) (view_matrix 9)
     (view_matrix 2) (view_matrix 6) (view_matrix 10)"

definition cov2D_Vrk :: "(int \<Rightarrow> float) \<Rightarrow> mat3" where
  "cov2D_Vrk cov3D = mat3
     (cov3D 0) (cov3D 1) (cov3D 2)
     (cov3D 1) (cov3D 3) (cov3D 4)
     (cov3D 2) (cov3D 4) (cov3D 5)"

definition cov2D_of :: "mat3 \<Rightarrow> mat3 \<Rightarrow> mat3" where
  "cov2D_of T Vrk = glm_mul (glm_mul (glm_transpose T) (glm_transpose Vrk)) T"

text \<open>Line 210: the variance of the screen-space low-pass filter.\<close>

definition h_var :: float where
  "h_var = 0.3"

text \<open>Lines 214 to 218: the kernel's \<^verbatim>\<open>h_convolution_scaling\<close>, from the entries of
  the projected covariance before the regularisation.\<close>

definition h_convolution_scaling :: "float \<Rightarrow> float \<Rightarrow> float \<Rightarrow> float" where
  "h_convolution_scaling c_xx c_xy c_yy =
     (let det_cov = c_xx * c_yy - c_xy * c_xy;
          det_cov_plus_h_cov = (c_xx + h_var) * (c_yy + h_var) - c_xy * c_xy
      in sqrt (max 0.000025 (det_cov / det_cov_plus_h_cov)))"

text \<open>Lines 210 to 228. From the entries \<open>c_xx\<close>, \<open>c_xy\<close>, \<open>c_yy\<close> of the projected
  covariance, the stored opacity gradient and the opacity: the regularised \<open>c_xx\<close> and
  \<open>c_yy\<close>, the value \<^verbatim>\<open>dL_dopacity[idx]\<close> holds afterwards, and \<^verbatim>\<open>d_inside_root\<close>.
  Without anti-aliasing the kernel does not write \<^verbatim>\<open>dL_dopacity[idx]\<close>.\<close>

definition antialias_scale ::
  "bool \<Rightarrow> float \<Rightarrow> float \<Rightarrow> float \<Rightarrow> float \<Rightarrow> float \<Rightarrow> float \<times> float \<times> float \<times> float" where
  "antialias_scale antialiasing c_xx c_xy c_yy dL_dopacity_v opacity =
     (if antialiasing then
        (let det_cov = c_xx * c_yy - c_xy * c_xy;
             c_xx' = c_xx + h_var;
             c_yy' = c_yy + h_var;
             det_cov_plus_h_cov = c_xx' * c_yy' - c_xy * c_xy;
             scaling = h_convolution_scaling c_xx c_xy c_yy;
             d_h_convolution_scaling = dL_dopacity_v * opacity;
             d_inside_root =
               (if det_cov / det_cov_plus_h_cov \<le> 0.000025 then 0
                else d_h_convolution_scaling / (2 * scaling))
         in (c_xx', c_yy', dL_dopacity_v * scaling, d_inside_root))
      else (c_xx + h_var, c_yy + h_var, dL_dopacity_v, 0))"

text \<open>Lines 230 to 248: the anti-aliasing part of the gradients with respect to the
  covariance entries, in the order \<open>(dL_dc_xx, dL_dc_xy, dL_dc_yy)\<close>. Its arguments
  \<open>c_xx\<close> and \<open>c_yy\<close> are the kernel's variables at that point, after line 215 and
  216 added \<open>h_var\<close> to them.\<close>

definition antialias_grads ::
  "bool \<Rightarrow> float \<Rightarrow> float \<Rightarrow> float \<Rightarrow> float \<Rightarrow> float \<times> float \<times> float" where
  "antialias_grads antialiasing c_xx c_xy c_yy d_inside_root =
     (if antialiasing then
        (let x = c_xx; y = c_yy; z = c_xy; w = h_var;
             denom_f = d_inside_root / sq (w * w + w * (x + y) + x * y - z * z);
             dL_dx = w * (w * y + y * y + z * z) * denom_f;
             dL_dy = w * (w * x + x * x + z * z) * denom_f;
             dL_dz = - 2 * w * z * (w + x + y) * denom_f
         in (dL_dx, dL_dz, dL_dy))
      else (0, 0, 0))"

text \<open>Lines 250 to 282: the guarded reciprocal (\<open>denom2inv_of\<close>), the gradients with
  respect to the covariance entries in the order \<open>(dL_dc_xx, dL_dc_xy, dL_dc_yy)\<close>
  (\<open>conic_dc\<close>, lines 259 to 261, on top of the anti-aliasing part \<open>aa\<close>), and the six
  entries stored at \<^verbatim>\<open>dL_dcov[6 * idx + k]\<close>, here in the order of \<open>k\<close>
  (\<open>conic_entries\<close>, lines 266 to 276). In the other branch the kernel stores six
  zeros and keeps the anti-aliasing part for the mean gradient.\<close>

definition denom2inv_of :: "float \<Rightarrow> float" where
  "denom2inv_of denom = 1 / ((denom * denom) + 0.0000001)"

definition conic_dc ::
  "float \<Rightarrow> float \<Rightarrow> float \<Rightarrow> float3 \<Rightarrow> float \<Rightarrow> float \<Rightarrow> float \<times> float \<times> float
     \<Rightarrow> float \<times> float \<times> float" where
  "conic_dc c_xx c_xy c_yy dL_dconic denom denom2inv aa =
     (case aa of (dL_dc_xx0, dL_dc_xy0, dL_dc_yy0) \<Rightarrow>
        (dL_dc_xx0 + denom2inv * (- c_yy * c_yy * x3 dL_dconic
           + 2 * c_xy * c_yy * y3 dL_dconic + (denom - c_xx * c_yy) * z3 dL_dconic),
         dL_dc_xy0 + denom2inv * 2 * (c_xy * c_yy * x3 dL_dconic
           - (denom + 2 * c_xy * c_xy) * y3 dL_dconic + c_xx * c_xy * z3 dL_dconic),
         dL_dc_yy0 + denom2inv * (- c_xx * c_xx * z3 dL_dconic
           + 2 * c_xx * c_xy * y3 dL_dconic + (denom - c_xx * c_yy) * x3 dL_dconic)))"

definition conic_entries :: "mat3 \<Rightarrow> float \<times> float \<times> float \<Rightarrow> float list" where
  "conic_entries T_m dc =
     (case dc of (dL_dc_xx, dL_dc_xy, dL_dc_yy) \<Rightarrow>
        [T_m 0 0 * T_m 0 0 * dL_dc_xx + T_m 0 0 * T_m 1 0 * dL_dc_xy
           + T_m 1 0 * T_m 1 0 * dL_dc_yy,
         2 * T_m 0 0 * T_m 0 1 * dL_dc_xx + (T_m 0 0 * T_m 1 1 + T_m 0 1 * T_m 1 0) * dL_dc_xy
           + 2 * T_m 1 0 * T_m 1 1 * dL_dc_yy,
         2 * T_m 0 0 * T_m 0 2 * dL_dc_xx + (T_m 0 0 * T_m 1 2 + T_m 0 2 * T_m 1 0) * dL_dc_xy
           + 2 * T_m 1 0 * T_m 1 2 * dL_dc_yy,
         T_m 0 1 * T_m 0 1 * dL_dc_xx + T_m 0 1 * T_m 1 1 * dL_dc_xy
           + T_m 1 1 * T_m 1 1 * dL_dc_yy,
         2 * T_m 0 2 * T_m 0 1 * dL_dc_xx + (T_m 0 1 * T_m 1 2 + T_m 0 2 * T_m 1 1) * dL_dc_xy
           + 2 * T_m 1 1 * T_m 1 2 * dL_dc_yy,
         T_m 0 2 * T_m 0 2 * dL_dc_xx + T_m 0 2 * T_m 1 2 * dL_dc_xy
           + T_m 1 2 * T_m 1 2 * dL_dc_yy])"

definition conic_grads ::
  "float \<Rightarrow> float \<Rightarrow> float \<Rightarrow> float3 \<Rightarrow> mat3 \<Rightarrow> float \<times> float \<times> float
     \<Rightarrow> (float \<times> float \<times> float) \<times> float list" where
  "conic_grads c_xx c_xy c_yy dL_dconic T_m aa =
     (let denom = c_xx * c_yy - c_xy * c_xy;
          denom2inv = denom2inv_of denom
      in if denom2inv \<noteq> 0 then
           (let dc = conic_dc c_xx c_xy c_yy dL_dconic denom denom2inv aa
            in (dc, conic_entries T_m dc))
         else (aa, [0, 0, 0, 0, 0, 0]))"

text \<open>Lines 284 to 318: back through \<open>T = W * J\<close> to the camera-space point and to the
  mean.\<close>

definition cov2D_dL_dmean ::
  "auxiliary \<Rightarrow> float \<Rightarrow> float \<Rightarrow> float3 \<Rightarrow> float \<Rightarrow> float \<Rightarrow> mat3 \<Rightarrow> mat3 \<Rightarrow> mat3
     \<Rightarrow> float \<times> float \<times> float \<Rightarrow> float \<Rightarrow> (int \<Rightarrow> float) \<Rightarrow> float3" where
  "cov2D_dL_dmean aux h_x h_y t x_grad_mul y_grad_mul T W Vrk dc dL_dinvdepth_idx view_matrix =
     (case dc of (dL_dc_xx, dL_dc_xy, dL_dc_yy) \<Rightarrow>
      let dL_dT00 = 2 * (T 0 0 * Vrk 0 0 + T 0 1 * Vrk 0 1 + T 0 2 * Vrk 0 2) * dL_dc_xx
            + (T 1 0 * Vrk 0 0 + T 1 1 * Vrk 0 1 + T 1 2 * Vrk 0 2) * dL_dc_xy;
          dL_dT01 = 2 * (T 0 0 * Vrk 1 0 + T 0 1 * Vrk 1 1 + T 0 2 * Vrk 1 2) * dL_dc_xx
            + (T 1 0 * Vrk 1 0 + T 1 1 * Vrk 1 1 + T 1 2 * Vrk 1 2) * dL_dc_xy;
          dL_dT02 = 2 * (T 0 0 * Vrk 2 0 + T 0 1 * Vrk 2 1 + T 0 2 * Vrk 2 2) * dL_dc_xx
            + (T 1 0 * Vrk 2 0 + T 1 1 * Vrk 2 1 + T 1 2 * Vrk 2 2) * dL_dc_xy;
          dL_dT10 = 2 * (T 1 0 * Vrk 0 0 + T 1 1 * Vrk 0 1 + T 1 2 * Vrk 0 2) * dL_dc_yy
            + (T 0 0 * Vrk 0 0 + T 0 1 * Vrk 0 1 + T 0 2 * Vrk 0 2) * dL_dc_xy;
          dL_dT11 = 2 * (T 1 0 * Vrk 1 0 + T 1 1 * Vrk 1 1 + T 1 2 * Vrk 1 2) * dL_dc_yy
            + (T 0 0 * Vrk 1 0 + T 0 1 * Vrk 1 1 + T 0 2 * Vrk 1 2) * dL_dc_xy;
          dL_dT12 = 2 * (T 1 0 * Vrk 2 0 + T 1 1 * Vrk 2 1 + T 1 2 * Vrk 2 2) * dL_dc_yy
            + (T 0 0 * Vrk 2 0 + T 0 1 * Vrk 2 1 + T 0 2 * Vrk 2 2) * dL_dc_xy;
          dL_dJ00 = W 0 0 * dL_dT00 + W 0 1 * dL_dT01 + W 0 2 * dL_dT02;
          dL_dJ02 = W 2 0 * dL_dT00 + W 2 1 * dL_dT01 + W 2 2 * dL_dT02;
          dL_dJ11 = W 1 0 * dL_dT10 + W 1 1 * dL_dT11 + W 1 2 * dL_dT12;
          dL_dJ12 = W 2 0 * dL_dT10 + W 2 1 * dL_dT11 + W 2 2 * dL_dT12;
          tz = 1 / z3 t;
          tz2 = tz * tz;
          tz3 = tz2 * tz;
          dL_dtx = x_grad_mul * - h_x * tz2 * dL_dJ02;
          dL_dty = y_grad_mul * - h_y * tz2 * dL_dJ12;
          dL_dtz = - h_x * tz2 * dL_dJ00 - h_y * tz2 * dL_dJ11 + (2 * h_x * x3 t) * tz3 * dL_dJ02
            + (2 * h_y * y3 t) * tz3 * dL_dJ12 - dL_dinvdepth_idx * tz2
      in transformVec4x3Transpose aux (float3 dL_dtx dL_dty dL_dtz) view_matrix)"

text \<open>Storing a run of floats at consecutive offsets from \<open>k\<close>.\<close>

fun store_floats :: "(int \<Rightarrow> float) \<Rightarrow> int \<Rightarrow> float list \<Rightarrow> (int \<Rightarrow> float)" where
  "store_floats a k [] = a"
| "store_floats a k (v # vs) = store_floats (a(k := v)) (k + 1) vs"

text \<open>Lines 173 to 208 for the primitive \<open>idx\<close>: the clamped camera-space point with
  the two masks, the matrix \<open>T = W * J\<close>, and the projected 2D covariance before the
  regularisation.\<close>

definition cov2D_t ::
  "auxiliary \<Rightarrow> int \<Rightarrow> (int \<Rightarrow> float3) \<Rightarrow> float \<Rightarrow> float \<Rightarrow> (int \<Rightarrow> float)
     \<Rightarrow> float3 \<times> float \<times> float" where
  "cov2D_t aux idx means tan_fovx tan_fovy view_matrix =
     ray_clamp tan_fovx tan_fovy (transformPoint4x3 aux (means idx) view_matrix)"

definition cov2D_T :: "float \<Rightarrow> float \<Rightarrow> float3 \<Rightarrow> (int \<Rightarrow> float) \<Rightarrow> mat3" where
  "cov2D_T h_x h_y t view_matrix = glm_mul (cov2D_W view_matrix) (cov2D_J h_x h_y t)"

definition cov2D_at ::
  "auxiliary \<Rightarrow> int \<Rightarrow> (int \<Rightarrow> float3) \<Rightarrow> (int \<Rightarrow> float) \<Rightarrow> float \<Rightarrow> float \<Rightarrow> float \<Rightarrow> float
     \<Rightarrow> (int \<Rightarrow> float) \<Rightarrow> mat3" where
  "cov2D_at aux idx means cov3Ds h_x h_y tan_fovx tan_fovy view_matrix =
     cov2D_of (cov2D_T h_x h_y (fst (cov2D_t aux idx means tan_fovx tan_fovy view_matrix))
                 view_matrix)
       (cov2D_Vrk (\<lambda>k. cov3Ds (6 * idx + k)))"

text \<open>Everything one thread of \<^verbatim>\<open>computeCov2DCUDA\<close> computes once it is past the guard
  of line 165: the value of \<^verbatim>\<open>dL_dopacity[idx]\<close> afterwards, the six entries of
  \<^verbatim>\<open>dL_dcov\<close>, and the mean gradient of line 318.\<close>

definition cov2D_thread ::
  "auxiliary \<Rightarrow> int \<Rightarrow> (int \<Rightarrow> float3) \<Rightarrow> (int \<Rightarrow> float) \<Rightarrow> float \<Rightarrow> float \<Rightarrow> float \<Rightarrow> float
     \<Rightarrow> (int \<Rightarrow> float) \<Rightarrow> (int \<Rightarrow> float) \<Rightarrow> (int \<Rightarrow> float) \<Rightarrow> (int \<Rightarrow> float) \<Rightarrow> bool
     \<Rightarrow> float \<Rightarrow> float \<times> float list \<times> float3" where
  "cov2D_thread aux idx means cov3Ds h_x h_y tan_fovx tan_fovy view_matrix opacities dL_dconics
       dL_dinvdepth antialiasing dL_dopacity_v =
     (let dL_dconic = float3 (dL_dconics (4 * idx)) (dL_dconics (4 * idx + 1))
                        (dL_dconics (4 * idx + 3))
      in case cov2D_t aux idx means tan_fovx tan_fovy view_matrix of
           (t, x_grad_mul, y_grad_mul) \<Rightarrow>
      let W_m = cov2D_W view_matrix;
          Vrk = cov2D_Vrk (\<lambda>k. cov3Ds (6 * idx + k));
          T_m = cov2D_T h_x h_y t view_matrix;
          cov2D = cov2D_at aux idx means cov3Ds h_x h_y tan_fovx tan_fovy view_matrix
      in case antialias_scale antialiasing (cov2D 0 0) (cov2D 0 1) (cov2D 1 1) dL_dopacity_v
                (opacities idx) of
           (c_xx, c_yy, dL_dopacity_new, d_inside_root) \<Rightarrow>
      let c_xy = cov2D 0 1 in
      case conic_grads c_xx c_xy c_yy dL_dconic T_m
             (antialias_grads antialiasing c_xx c_xy c_yy d_inside_root) of
           (dc, entries) \<Rightarrow>
             (dL_dopacity_new, entries,
              cov2D_dL_dmean aux h_x h_y t x_grad_mul y_grad_mul T_m W_m Vrk dc
                (dL_dinvdepth idx) view_matrix))"

text \<open>One thread of \<^verbatim>\<open>computeCov2DCUDA\<close>, of rank \<open>idx\<close> in the grid. The rank is
  unsigned and 64 bits wide; the comparison of line 165 converts \<open>P\<close> to that type.\<close>

definition computeCov2DCUDA ::
  "auxiliary \<Rightarrow> nat \<Rightarrow> int \<Rightarrow> (int \<Rightarrow> float3) \<Rightarrow> (int \<Rightarrow> int) \<Rightarrow> (int \<Rightarrow> float) \<Rightarrow> float \<Rightarrow> float
     \<Rightarrow> float \<Rightarrow> float \<Rightarrow> (int \<Rightarrow> float) \<Rightarrow> (int \<Rightarrow> float) \<Rightarrow> (int \<Rightarrow> float) \<Rightarrow> (int \<Rightarrow> float)
     \<Rightarrow> bool \<Rightarrow> grad_buffers \<Rightarrow> grad_buffers" where
  "computeCov2DCUDA aux idx P means radii cov3Ds h_x h_y tan_fovx tan_fovy view_matrix opacities
       dL_dconics dL_dinvdepth antialiasing b =
     (if int idx \<ge> P mod 2 ^ 64 \<or> \<not> (radii (int idx) > 0) then b
      else
        (case cov2D_thread aux (int idx) means cov3Ds h_x h_y tan_fovx tan_fovy view_matrix
                opacities dL_dconics dL_dinvdepth antialiasing (dL_dopacity b (int idx)) of
           (dL_dopacity_new, entries, dL_dmean) \<Rightarrow>
             b\<lparr>dL_dopacity :=
                 (if antialiasing then (dL_dopacity b)(int idx := dL_dopacity_new)
                  else dL_dopacity b),
               dL_dcov := store_floats (dL_dcov b) (6 * int idx) entries,
               dL_dmeans := (dL_dmeans b)(int idx := dL_dmean)\<rparr>))"

section \<open>PreprocessBackward: \<^verbatim>\<open>preprocessCUDA\<close> and \<^verbatim>\<open>BACKWARD::preprocess\<close>\<close>

text \<open>Line 427: the reciprocal of the clip-space \<open>w\<close>.\<close>

definition m_w_of :: "float \<Rightarrow> float" where
  "m_w_of w = 1 / (w + 0.0000001)"

text \<open>Lines 423 to 436: the mean gradient induced by the screen-space mean gradient.\<close>

definition proj_dL_dmean :: "auxiliary \<Rightarrow> float3 \<Rightarrow> (int \<Rightarrow> float) \<Rightarrow> float4 \<Rightarrow> float3" where
  "proj_dL_dmean aux m proj g =
     (let m_hom = transformPoint4x4 aux m proj;
          m_w = m_w_of (w4 m_hom);
          mul1 = (proj 0 * x3 m + proj 4 * y3 m + proj 8 * z3 m + proj 12) * m_w * m_w;
          mul2 = (proj 1 * x3 m + proj 5 * y3 m + proj 9 * z3 m + proj 13) * m_w * m_w
      in float3
           ((proj 0 * m_w - proj 3 * mul1) * x4 g + (proj 1 * m_w - proj 3 * mul2) * y4 g)
           ((proj 4 * m_w - proj 7 * mul1) * x4 g + (proj 5 * m_w - proj 7 * mul2) * y4 g)
           ((proj 8 * m_w - proj 11 * mul1) * x4 g + (proj 9 * m_w - proj 11 * mul2) * y4 g))"

text \<open>One thread of \<^verbatim>\<open>preprocessCUDA\<close>. A null \<^verbatim>\<open>shs\<close> or \<^verbatim>\<open>scales\<close> pointer is
  \<open>None\<close>. The read-only \<^verbatim>\<open>dL_dmean2D\<close> argument is \<open>dL_dmean2D'\<close>; the
  \<^verbatim>\<open>dL_dcov3D\<close> argument is the buffer \<open>dL_dcov\<close> that the previous kernel wrote.\<close>

definition preprocessCUDA ::
  "auxiliary \<Rightarrow> nat \<Rightarrow> int \<Rightarrow> int \<Rightarrow> int \<Rightarrow> (int \<Rightarrow> float3) \<Rightarrow> (int \<Rightarrow> int) \<Rightarrow> (int \<Rightarrow> float)
     \<Rightarrow> (int \<Rightarrow> float) option \<Rightarrow> (int \<Rightarrow> bool) \<Rightarrow> (int \<Rightarrow> float3) option \<Rightarrow> (int \<Rightarrow> float4)
     \<Rightarrow> float \<Rightarrow> (int \<Rightarrow> float) \<Rightarrow> float3 \<Rightarrow> (int \<Rightarrow> float4) \<Rightarrow> (int \<Rightarrow> float)
     \<Rightarrow> grad_buffers \<Rightarrow> grad_buffers" where
  "preprocessCUDA aux idx P D M means radii dc shs clamped scales rotations scale_modifier proj
       campos dL_dmean2D' dL_dcolor b =
     (if int idx \<ge> P mod 2 ^ 64 \<or> \<not> (radii (int idx) > 0) then b
      else
        (let m = means (int idx);
             dL_dmean = proj_dL_dmean aux m proj (dL_dmean2D' (int idx));
             b1 = b\<lparr>dL_dmeans := (dL_dmeans b)(int idx := dL_dmeans b (int idx) + dL_dmean)\<rparr>;
             b2 = (case shs of
                     None \<Rightarrow> b1
                   | Some shs' \<Rightarrow>
                       computeColorFromSH aux (int idx) D M means campos dc shs' clamped
                         (vec3_at dL_dcolor) b1)
         in (case scales of
               None \<Rightarrow> b2
             | Some scales' \<Rightarrow>
                 computeCov3D (int idx) (scales' (int idx)) scale_modifier (rotations (int idx))
                   (dL_dcov b2) b2)))"

text \<open>A kernel launch of \<open>n\<close> threads. Each thread of the two kernels above reads and
  writes only the buffer slots of its own rank, so the threads are run in rank order.\<close>

definition launch :: "(nat \<Rightarrow> grad_buffers \<Rightarrow> grad_buffers) \<Rightarrow> nat \<Rightarrow> grad_buffers \<Rightarrow> grad_buffers" where
  "launch thread n b = fold thread [0..<n] b"

text \<open>The grid of lines 696 and 717: \<^verbatim>\<open>(P + 255) / 256\<close> blocks of 256 threads.\<close>

definition grid_threads :: "int \<Rightarrow> nat" where
  "grid_threads P = nat (((P + 255) sdiv 256) * 256)"

definition BACKWARD_preprocess ::
  "auxiliary \<Rightarrow> int \<Rightarrow> int \<Rightarrow> int \<Rightarrow> (int \<Rightarrow> float3) \<Rightarrow> (int \<Rightarrow> int) \<Rightarrow> (int \<Rightarrow> float)
     \<Rightarrow> (int \<Rightarrow> float) option \<Rightarrow> (int \<Rightarrow> bool) \<Rightarrow> (int \<Rightarrow> float) \<Rightarrow> (int \<Rightarrow> float3) option
     \<Rightarrow> (int \<Rightarrow> float4) \<Rightarrow> float \<Rightarrow> (int \<Rightarrow> float) \<Rightarrow> (int \<Rightarrow> float) \<Rightarrow> (int \<Rightarrow> float)
     \<Rightarrow> float \<Rightarrow> float \<Rightarrow> float \<Rightarrow> float \<Rightarrow> float3 \<Rightarrow> (int \<Rightarrow> float4) \<Rightarrow> (int \<Rightarrow> float)
     \<Rightarrow> (int \<Rightarrow> float) \<Rightarrow> (int \<Rightarrow> float) \<Rightarrow> bool \<Rightarrow> grad_buffers \<Rightarrow> grad_buffers" where
  "BACKWARD_preprocess aux P D M means3D radii dc shs clamped opacities scales rotations
       scale_modifier cov3Ds viewmatrix projmatrix focal_x focal_y tan_fovx tan_fovy campos
       dL_dmean2D' dL_dconic dL_dinvdepth dL_dcolor antialiasing b =
     (let b1 = launch (\<lambda>idx. computeCov2DCUDA aux idx P means3D radii cov3Ds focal_x focal_y
                   tan_fovx tan_fovy viewmatrix opacities dL_dconic dL_dinvdepth antialiasing)
                 (grid_threads P) b
      in launch (\<lambda>idx. preprocessCUDA aux idx P D M means3D radii dc shs clamped scales rotations
                   scale_modifier projmatrix campos dL_dmean2D' dL_dcolor)
           (grid_threads P) b1)"

section \<open>TileRenderBackward: \<^verbatim>\<open>PerGaussianRenderCUDA\<close> and \<^verbatim>\<open>BACKWARD::render\<close>\<close>

datatype uint2 = uint2 (ux: "32 word") (uy: "32 word")

text \<open>The read-only arguments of the kernel, under their names in its signature.\<close>

record render_args =
  ranges :: "int \<Rightarrow> uint2"
  point_list :: "int \<Rightarrow> 32 word"
  W :: int
  H :: int
  B :: int
  per_tile_bucket_offset :: "int \<Rightarrow> 32 word"
  bucket_to_tile :: "int \<Rightarrow> 32 word"
  sampled_T :: "int \<Rightarrow> float"
  sampled_ar :: "int \<Rightarrow> float"
  sampled_ard :: "int \<Rightarrow> float"
  bg_color :: "int \<Rightarrow> float"
  points_xy_image :: "int \<Rightarrow> float2"
  conic_opacity :: "int \<Rightarrow> float4"
  colors :: "int \<Rightarrow> float"
  depths :: "int \<Rightarrow> float"
  final_Ts :: "int \<Rightarrow> float"
  n_contrib :: "int \<Rightarrow> 32 word"
  max_contrib :: "int \<Rightarrow> 32 word"
  pixel_colors :: "int \<Rightarrow> float"
  pixel_invDepths :: "int \<Rightarrow> float"
  dL_dpixels :: "int \<Rightarrow> float"
  dL_invdepths :: "int \<Rightarrow> float"

text \<open>The locals of one thread. The first group is what the loop hands from each lane
  to the next with \<^verbatim>\<open>shfl_up\<close> (lines 538 to 544); the second is the accumulators of
  lines 523 to 530; the third is what the thread loads once about its own primitive
  (lines 485 to 520).\<close>

record pixel_state =
  T :: float
  T_final :: float
  last_contributor :: float
  ar :: "nat \<Rightarrow> float"
  ard :: float
  dL_dpixel :: "nat \<Rightarrow> float"
  dL_invdepth :: float

record registers =
  Register_dL_dmean2D_x :: float
  Register_dL_dmean2D_y :: float
  Register_dL_dconic2D_x :: float
  Register_dL_dconic2D_y :: float
  Register_dL_dconic2D_w :: float
  Register_dL_dopacity :: float
  Register_dL_dcolors :: "nat \<Rightarrow> float"
  Register_dL_dinvdepths :: float

record splat =
  valid_splat :: bool
  splat_idx_in_tile :: int
  gaussian_idx :: int
  xy :: float2
  con_o :: float4
  c :: "nat \<Rightarrow> float"
  invd :: float

type_synonym thread = "pixel_state \<times> registers"

text \<open>Lines 492 to 500, for the warp of bucket \<open>g\<close>.\<close>

definition tile_id_of :: "render_args \<Rightarrow> 32 word \<Rightarrow> 32 word" where
  "tile_id_of a g = bucket_to_tile a (uint g)"

definition num_splats_in_tile :: "render_args \<Rightarrow> 32 word \<Rightarrow> int" where
  "num_splats_in_tile a tile_id =
     (let range = ranges a (uint tile_id) in sint (uy range - ux range))"

definition bbm_of :: "render_args \<Rightarrow> 32 word \<Rightarrow> 32 word" where
  "bbm_of a tile_id =
     (if tile_id = 0 then 0 else per_tile_bucket_offset a (uint (tile_id - 1)))"

definition bucket_idx_in_tile :: "render_args \<Rightarrow> 32 word \<Rightarrow> int" where
  "bucket_idx_in_tile a g = sint (g - bbm_of a (tile_id_of a g))"

text \<open>Lines 498 to 520: what lane \<open>k\<close> of that warp knows about its primitive; \<open>C\<close> is
  the channel count, the kernel's template parameter.\<close>

definition load_splat :: "render_args \<Rightarrow> nat \<Rightarrow> 32 word \<Rightarrow> nat \<Rightarrow> splat" where
  "load_splat a C g k =
     (let tile_id = tile_id_of a g;
          range = ranges a (uint tile_id);
          idx_in_tile = bucket_idx_in_tile a g * 32 + int k;
          splat_idx_global = sint (ux range + word_of_int idx_in_tile);
          valid = (idx_in_tile < num_splats_in_tile a tile_id)
      in if valid then
           (let gi = sint (point_list a splat_idx_global) in
            \<lparr>valid_splat = True, splat_idx_in_tile = idx_in_tile, gaussian_idx = gi,
             xy = points_xy_image a gi, con_o = conic_opacity a gi,
             c = (\<lambda>ch. if ch < C then colors a (gi * int C + int ch) else 0),
             invd = 1 / depths a gi\<rparr>)
         else
           \<lparr>valid_splat = False, splat_idx_in_tile = idx_in_tile, gaussian_idx = 0,
            xy = float2 0 0, con_o = float4 0 0 0 0, c = (\<lambda>ch. 0), invd = 0\<rparr>)"

text \<open>Lines 533 to 535 and 565 to 569: the pixel that index \<open>idx\<close> of the tile's
  block stands for. \<^verbatim>\<open>%\<close> and \<^verbatim>\<open>/\<close> on \<^verbatim>\<open>int\<close> truncate towards zero; the results
  are converted to \<^verbatim>\<open>uint32_t\<close> before they are added.\<close>

definition horizontal_blocks :: "auxiliary \<Rightarrow> render_args \<Rightarrow> 32 word" where
  "horizontal_blocks aux a = word_of_int ((W a + BLOCK_X aux - 1) sdiv BLOCK_X aux)"

definition pix_min :: "auxiliary \<Rightarrow> render_args \<Rightarrow> 32 word \<Rightarrow> uint2" where
  "pix_min aux a tile_id =
     (let hb = horizontal_blocks aux a;
          tile = uint2 (tile_id mod hb) (tile_id div hb)
      in uint2 (ux tile * word_of_int (BLOCK_X aux)) (uy tile * word_of_int (BLOCK_Y aux)))"

definition pix_of :: "auxiliary \<Rightarrow> render_args \<Rightarrow> 32 word \<Rightarrow> int \<Rightarrow> uint2" where
  "pix_of aux a tile_id idx =
     (let m = pix_min aux a tile_id
      in uint2 (ux m + word_of_int (idx smod BLOCK_X aux))
               (uy m + word_of_int (idx sdiv BLOCK_X aux)))"

definition pix_id_of :: "render_args \<Rightarrow> uint2 \<Rightarrow> 32 word" where
  "pix_id_of a pix = word_of_int (W a) * uy pix + ux pix"

definition valid_pixel :: "render_args \<Rightarrow> uint2 \<Rightarrow> bool" where
  "valid_pixel a pix = (ux pix < word_of_int (W a) \<and> uy pix < word_of_int (H a))"

text \<open>Lines 574 to 583: what lane 0 reads from memory for pixel index \<open>idx\<close> of bucket
  \<open>g\<close>: the checkpoint minus the final output, and the pixel's forward results and
  upstream gradients. The read overwrites every shuffled local; the arrays \<^verbatim>\<open>ar\<close> and
  \<^verbatim>\<open>dL_dpixel\<close> have \<open>C\<close> entries, and the functions that stand for them are 0
  beyond.\<close>

definition load_pixel ::
  "auxiliary \<Rightarrow> render_args \<Rightarrow> nat \<Rightarrow> 32 word \<Rightarrow> int \<Rightarrow> uint2 \<Rightarrow> pixel_state" where
  "load_pixel aux a C g idx pix =
     (let pix_id = pix_id_of a pix;
          chan = (\<lambda>ch. uint (word_of_int (int ch * H a * W a) + pix_id))
      in \<lparr>T = sampled_T a (uint (g * word_of_int (BLOCK_SIZE aux) + word_of_int idx)),
          T_final = final_Ts a (uint pix_id),
          last_contributor = real (unat (n_contrib a (uint pix_id))),
          ar = (\<lambda>ch. if ch < C then
                   - pixel_colors a (chan ch)
                   + sampled_ar a (uint (g * word_of_int (BLOCK_SIZE aux) * of_nat C
                       + word_of_int (int ch * BLOCK_SIZE aux) + word_of_int idx))
                 else 0),
          ard = - pixel_invDepths a (uint pix_id)
                + sampled_ard a (uint (g * word_of_int (BLOCK_SIZE aux) + word_of_int idx)),
          dL_dpixel = (\<lambda>ch. if ch < C then dL_dpixels a (chan ch) else 0),
          dL_invdepth = dL_invdepths a (uint pix_id)\<rparr>)"

text \<open>Lines 593 to 599: the blending values of one primitive at one pixel.\<close>

definition power_of :: "splat \<Rightarrow> float2 \<Rightarrow> float" where
  "power_of s pixf =
     (let dx = x2 (xy s) - x2 pixf; dy = y2 (xy s) - y2 pixf
      in - 0.5 * (x4 (con_o s) * dx * dx + z4 (con_o s) * dy * dy) - y4 (con_o s) * dx * dy)"

definition G_of :: "splat \<Rightarrow> float2 \<Rightarrow> float" where
  "G_of s pixf = exp (power_of s pixf)"

definition alpha_of :: "splat \<Rightarrow> float2 \<Rightarrow> float" where
  "alpha_of s pixf = min 0.99 (w4 (con_o s) * G_of s pixf)"

text \<open>Lines 604 to 611: one pass of the loop over the channels. The tuple is
  \<^verbatim>\<open>ar\<close>, \<^verbatim>\<open>Register_dL_dcolors\<close>, \<^verbatim>\<open>dL_dalpha\<close> and \<^verbatim>\<open>bg_dot_dpixel\<close>.\<close>

definition channel_step ::
  "render_args \<Rightarrow> splat \<Rightarrow> float \<Rightarrow> float \<Rightarrow> float \<Rightarrow> (nat \<Rightarrow> float) \<Rightarrow> nat
     \<Rightarrow> (nat \<Rightarrow> float) \<times> (nat \<Rightarrow> float) \<times> float \<times> float
     \<Rightarrow> (nat \<Rightarrow> float) \<times> (nat \<Rightarrow> float) \<times> float \<times> float" where
  "channel_step a s T_in alpha weight dL_dpix ch st =
     (case st of (ar_v, Rc, dL_dalpha, bg_dot_dpixel) \<Rightarrow>
      let ar_v' = ar_v(ch := ar_v ch + weight * c s ch);
          dL_dchannel = dL_dpix ch;
          Rc' = Rc(ch := Rc ch + weight * dL_dchannel);
          dL_dalpha' = dL_dalpha
            + ((c s ch * T_in) - (1 / (1 - alpha)) * (- ar_v' ch)) * dL_dchannel;
          bg_dot_dpixel' = bg_dot_dpixel + bg_color a (int ch) * dL_dpix ch
      in (ar_v', Rc', dL_dalpha', bg_dot_dpixel'))"

text \<open>Lines 587 to 640: the work of one lane on one pixel. Every \<^verbatim>\<open>continue\<close> leaves
  the thread as it is, since the block is the last of the loop body.\<close>

definition do_work ::
  "render_args \<Rightarrow> nat \<Rightarrow> splat \<Rightarrow> uint2 \<Rightarrow> thread \<Rightarrow> thread" where
  "do_work a C s pix th =
     (case th of (p, r) \<Rightarrow>
      let pixf = float2 (real (unat (ux pix))) (real (unat (uy pix)));
          ddelx_dx = 0.5 * real_of_int (W a);
          ddely_dy = 0.5 * real_of_int (H a)
      in if word_of_int (W a) \<le> ux pix \<or> word_of_int (H a) \<le> uy pix then th
         else if real_of_int (splat_idx_in_tile s) \<ge> last_contributor p then th
         else
           (let dx = x2 (xy s) - x2 pixf;
                dy = y2 (xy s) - y2 pixf;
                power = power_of s pixf
            in if power > 0 then th
               else
                 (let G = G_of s pixf;
                      alpha = alpha_of s pixf
                  in if alpha < 1 / 255 then th
                     else
                       (let weight = alpha * T p in
                        case fold (channel_step a s (T p) alpha weight (dL_dpixel p)) [0..<C]
                               (ar p, Register_dL_dcolors r, 0, 0) of
                          (ar', Rc', dL_dalpha1, bg_dot_dpixel) \<Rightarrow>
                        let ard' = ard p + weight * invd s;
                            Rinv' = Register_dL_dinvdepths r + weight * dL_invdepth p;
                            dL_dalpha2 = dL_dalpha1
                              + ((invd s * T p) - (1 / (1 - alpha)) * (- ard')) * dL_invdepth p;
                            dL_dalpha = dL_dalpha2 + (- T_final p / (1 - alpha)) * bg_dot_dpixel;
                            T' = T p * (1 - alpha);
                            dL_dG = w4 (con_o s) * dL_dalpha;
                            gdx = G * dx;
                            gdy = G * dy;
                            dG_ddelx = - gdx * x4 (con_o s) - gdy * y4 (con_o s);
                            dG_ddely = - gdy * z4 (con_o s) - gdx * y4 (con_o s);
                            tmp_x = dL_dG * dG_ddelx * ddelx_dx;
                            tmp_y = dL_dG * dG_ddely * ddely_dy
                        in (p\<lparr>T := T', ar := ar', ard := ard'\<rparr>,
                            r\<lparr>Register_dL_dmean2D_x := Register_dL_dmean2D_x r + tmp_x,
                              Register_dL_dmean2D_y := Register_dL_dmean2D_y r + tmp_y,
                              Register_dL_dconic2D_x :=
                                Register_dL_dconic2D_x r + - 0.5 * gdx * dx * dL_dG,
                              Register_dL_dconic2D_y :=
                                Register_dL_dconic2D_y r + - 0.5 * gdx * dy * dL_dG,
                              Register_dL_dconic2D_w :=
                                Register_dL_dconic2D_w r + - 0.5 * gdy * dy * dL_dG,
                              Register_dL_dopacity := Register_dL_dopacity r + G * dL_dalpha,
                              Register_dL_dcolors := Rc',
                              Register_dL_dinvdepths := Rinv'\<rparr>)))))"

text \<open>Lines 549 to 641: one pass of the outer loop, for all lanes at once. Lane \<open>k\<close>
  first receives the shuffled locals of lane \<open>k - 1\<close> as they were after the previous
  pass (lane 0 keeps its own), then works on pixel index \<open>i - k\<close>.\<close>

definition iteration ::
  "auxiliary \<Rightarrow> render_args \<Rightarrow> nat \<Rightarrow> 32 word \<Rightarrow> int \<Rightarrow> (nat \<Rightarrow> thread) \<Rightarrow> (nat \<Rightarrow> thread)" where
  "iteration aux a C g i lanes = (\<lambda>k.
     let s = load_splat a C g k;
         p = fst (lanes (if k = 0 then 0 else k - 1));
         r = snd (lanes k);
         idx = i - int k;
         pix = pix_of aux a (tile_id_of a g) idx;
         p1 = (if valid_splat s \<and> valid_pixel a pix \<and> k = 0 \<and> idx < BLOCK_SIZE aux
               then load_pixel aux a C g idx pix else p)
     in if valid_splat s \<and> valid_pixel a pix \<and> 0 \<le> idx \<and> idx < BLOCK_SIZE aux
        then do_work a C s pix (p1, r) else (p1, r))"

definition zero_registers :: registers where
  "zero_registers =
     \<lparr>Register_dL_dmean2D_x = 0, Register_dL_dmean2D_y = 0, Register_dL_dconic2D_x = 0,
      Register_dL_dconic2D_y = 0, Register_dL_dconic2D_w = 0, Register_dL_dopacity = 0,
      Register_dL_dcolors = (\<lambda>ch. 0), Register_dL_dinvdepths = 0\<rparr>"

text \<open>The warp after the first \<open>n\<close> passes of the loop. The shuffled locals are not
  initialised by the source; \<open>junk\<close> is what each lane happens to hold in them at the
  start. The whole loop makes \<^verbatim>\<open>BLOCK_SIZE + 31\<close> passes.\<close>

definition loop_upto ::
  "auxiliary \<Rightarrow> render_args \<Rightarrow> nat \<Rightarrow> 32 word \<Rightarrow> (nat \<Rightarrow> pixel_state) \<Rightarrow> nat
     \<Rightarrow> (nat \<Rightarrow> thread)" where
  "loop_upto aux a C g junk n =
     fold (iteration aux a C g) (map int [0..<n]) (\<lambda>k. (junk k, zero_registers))"

definition render_loop ::
  "auxiliary \<Rightarrow> render_args \<Rightarrow> nat \<Rightarrow> 32 word \<Rightarrow> (nat \<Rightarrow> pixel_state) \<Rightarrow> (nat \<Rightarrow> thread)" where
  "render_loop aux a C g junk = loop_upto aux a C g junk (nat (BLOCK_SIZE aux + 31))"

text \<open>Lines 644 to 659: the atomic additions of one lane.\<close>

definition flush :: "nat \<Rightarrow> splat \<Rightarrow> registers \<Rightarrow> grad_buffers \<Rightarrow> grad_buffers" where
  "flush C s r b =
     (if valid_splat s then
        (let gi = gaussian_idx s;
             m = dL_dmean2D b gi;
             q = dL_dconic2D b gi
         in b\<lparr>dL_dmean2D := (dL_dmean2D b)(gi := float4
                  (x4 m + Register_dL_dmean2D_x r)
                  (y4 m + Register_dL_dmean2D_y r)
                  (z4 m + \<bar>Register_dL_dmean2D_x r\<bar>)
                  (w4 m + \<bar>Register_dL_dmean2D_y r\<bar>)),
               dL_dconic2D := (dL_dconic2D b)(gi := float4
                  (x4 q + Register_dL_dconic2D_x r)
                  (y4 q + Register_dL_dconic2D_y r)
                  (z4 q)
                  (w4 q + Register_dL_dconic2D_w r)),
               dL_dopacity := (dL_dopacity b)(gi := dL_dopacity b gi + Register_dL_dopacity r),
               dL_dcolors := fold (\<lambda>ch f. f(gi * int C + int ch :=
                                  f (gi * int C + int ch) + Register_dL_dcolors r ch))
                               [0..<C] (dL_dcolors b),
               dL_dinvdepths :=
                 (dL_dinvdepths b)(gi := dL_dinvdepths b gi + Register_dL_dinvdepths r)\<rparr>)
      else b)"

text \<open>The kernel for the warp of bucket \<open>g\<close>: the two early returns of lines 483 and
  503, the loop, and the atomic additions of its 32 lanes.\<close>

definition PerGaussianRenderCUDA ::
  "auxiliary \<Rightarrow> render_args \<Rightarrow> nat \<Rightarrow> 32 word \<Rightarrow> (nat \<Rightarrow> pixel_state) \<Rightarrow> grad_buffers
     \<Rightarrow> grad_buffers" where
  "PerGaussianRenderCUDA aux a C g junk b =
     (if \<not> g < word_of_int (B a) then b
      else if word_of_int (bucket_idx_in_tile a g * 32) \<ge> max_contrib a (uint (tile_id_of a g))
      then b
      else
        (let lanes = render_loop aux a C g junk
         in fold (\<lambda>k. flush C (load_splat a C g k) (snd (lanes k))) [0..<32] b))"

text \<open>\<^verbatim>\<open>BACKWARD::render\<close> launches \<^verbatim>\<open>(B * 32 + 31) / 32\<close> blocks of one warp each, so a
  warp's bucket is its block index. The warps only meet in their atomic additions,
  which commute in exact arithmetic; they are run in the order of their index.\<close>

definition BACKWARD_render ::
  "auxiliary \<Rightarrow> render_args \<Rightarrow> nat \<Rightarrow> (nat \<Rightarrow> pixel_state) \<Rightarrow> grad_buffers \<Rightarrow> grad_buffers" where
  "BACKWARD_render aux a C junk b =
     fold (\<lambda>g. PerGaussianRenderCUDA aux a C (of_nat g) junk)
       [0..<nat ((B a * 32 + 32 - 1) sdiv 32)] b"

section \<open>The loop of \<^verbatim>\<open>PerGaussianRenderCUDA\<close>, pixel by pixel\<close>

text \<open>The work of a lane on a pixel (\<open>do_work\<close>) reads the shuffled locals and adds
  to the accumulators. Its two halves, from accumulators that are zero: the shuffled
  locals it leaves, and what it adds.\<close>

definition work_state :: "render_args \<Rightarrow> nat \<Rightarrow> splat \<Rightarrow> uint2 \<Rightarrow> pixel_state \<Rightarrow> pixel_state" where
  "work_state a C s pix p = fst (do_work a C s pix (p, zero_registers))"

definition work_delta :: "render_args \<Rightarrow> nat \<Rightarrow> splat \<Rightarrow> uint2 \<Rightarrow> pixel_state \<Rightarrow> registers" where
  "work_delta a C s pix p = snd (do_work a C s pix (p, zero_registers))"

text \<open>Line 568: the coordinates of a pixel as floats, \<^verbatim>\<open>pixf\<close>. Lines 603 to 619: the
  alpha gradient that \<open>do_work\<close> computes for a sample it does not skip, in terms of the
  state \<open>p\<close> in which the sample finds the pixel.\<close>

definition pixel_centre :: "uint2 \<Rightarrow> float2" where
  "pixel_centre pix = float2 (real (unat (ux pix))) (real (unat (uy pix)))"

definition work_dL_dalpha :: "render_args \<Rightarrow> nat \<Rightarrow> splat \<Rightarrow> uint2 \<Rightarrow> pixel_state \<Rightarrow> float" where
  "work_dL_dalpha a C s pix p =
     (let alpha = alpha_of s (pixel_centre pix)
      in (\<Sum>ch<C. ((c s ch * T p) - (1 / (1 - alpha)) * (- (ar p ch + alpha * T p * c s ch)))
                    * dL_dpixel p ch)
         + ((invd s * T p) - (1 / (1 - alpha)) * (- (ard p + alpha * T p * invd s)))
             * dL_invdepth p
         + (- T_final p / (1 - alpha)) * (\<Sum>ch<C. bg_color a (int ch) * dL_dpixel p ch))"

definition add_registers :: "registers \<Rightarrow> registers \<Rightarrow> registers" where
  "add_registers r d =
     \<lparr>Register_dL_dmean2D_x = Register_dL_dmean2D_x r + Register_dL_dmean2D_x d,
      Register_dL_dmean2D_y = Register_dL_dmean2D_y r + Register_dL_dmean2D_y d,
      Register_dL_dconic2D_x = Register_dL_dconic2D_x r + Register_dL_dconic2D_x d,
      Register_dL_dconic2D_y = Register_dL_dconic2D_y r + Register_dL_dconic2D_y d,
      Register_dL_dconic2D_w = Register_dL_dconic2D_w r + Register_dL_dconic2D_w d,
      Register_dL_dopacity = Register_dL_dopacity r + Register_dL_dopacity d,
      Register_dL_dcolors = (\<lambda>ch. Register_dL_dcolors r ch + Register_dL_dcolors d ch),
      Register_dL_dinvdepths = Register_dL_dinvdepths r + Register_dL_dinvdepths d\<rparr>"

text \<open>What the shuffles amount to inside one bucket \<open>g\<close>: the state of pixel index
  \<open>idx\<close> as lane 0 loads it, handed down the lanes; after \<open>k\<close> lanes it is
  \<open>bucket_scan \<dots> idx k\<close>. \<open>lane_total \<dots> k m\<close> is what lane \<open>k\<close> has accumulated
  once it has worked on the pixel indices below \<open>m\<close>.\<close>

fun bucket_scan ::
  "auxiliary \<Rightarrow> render_args \<Rightarrow> nat \<Rightarrow> 32 word \<Rightarrow> int \<Rightarrow> nat \<Rightarrow> pixel_state" where
  "bucket_scan aux a C g idx 0 = load_pixel aux a C g idx (pix_of aux a (tile_id_of a g) idx)"
| "bucket_scan aux a C g idx (Suc k) =
     work_state a C (load_splat a C g k) (pix_of aux a (tile_id_of a g) idx)
       (bucket_scan aux a C g idx k)"

definition lane_add ::
  "auxiliary \<Rightarrow> render_args \<Rightarrow> nat \<Rightarrow> 32 word \<Rightarrow> nat \<Rightarrow> nat \<Rightarrow> registers \<Rightarrow> registers" where
  "lane_add aux a C g k idx r =
     (let pix = pix_of aux a (tile_id_of a g) (int idx)
      in if valid_pixel a pix
         then add_registers r
                (work_delta a C (load_splat a C g k) pix (bucket_scan aux a C g (int idx) k))
         else r)"

definition lane_total ::
  "auxiliary \<Rightarrow> render_args \<Rightarrow> nat \<Rightarrow> 32 word \<Rightarrow> nat \<Rightarrow> nat \<Rightarrow> registers" where
  "lane_total aux a C g k m = fold (lane_add aux a C g k) [0..<m] zero_registers"

section \<open>The kernel's work, laid out tile by tile\<close>

text \<open>
  A device for the proofs: the per-sample work \<open>do_work\<close> of the kernel, applied at
  every pixel of a tile to the tile's sorted primitives \<open>0, 1, \<dots>\<close> in order, with no
  buckets, no checkpoints and no lanes, from the state in which lane 0 of the tile's
  first bucket would start. It is what the warps of a tile compute once the shuffles
  and the checkpoints are accounted for; the reference of the spec is defined
  separately, further down, from the spec's own rules.
\<close>










section \<open>The brute-force reference of the spec\<close>

text \<open>
  Modelled from the spec: the brute-force sequential reverse-compositing reference of
  the testable property in section 8 of the spec, and the forward compositing pass
  whose results the backward pass reads. Neither is among the sources. The definitions
  of this section follow section 4.5 and the glossary of the spec; they use nothing of
  the kernel's per-sample code. They share with the kernel only the buffers, the
  enumeration of a tile's pixels and their coordinates (\<open>pix_of\<close>, \<open>pixel_centre\<close>)
  and the tile's sorted primitives as \<open>tile_splat\<close> reads them.
\<close>























section \<open>Devices for the refinement proof\<close>


section \<open>Concrete inputs\<close>

text \<open>
  Modelled from the spec: the helpers and constants of \<^verbatim>\<open>auxiliary.h\<close> and
  \<^verbatim>\<open>config.h\<close>, which are not among the sources. The theorems below hold for every
  value of the \<open>auxiliary\<close> record; this instance serves to evaluate the kernels at
  concrete inputs. The transforms apply the view or projection matrix in the
  column-major layout with which \<^verbatim>\<open>computeCov2DCUDA\<close> and \<^verbatim>\<open>preprocessCUDA\<close> themselves
  read it (spec 4.1: the kernel recomputes the camera-space position; 4.4: it projects
  the mean to clip space). \<open>dnormvdv\<close> is the backward rule of the normalisation of
  a vector (spec 4.2: the standard unit-vector gradient identity). The spherical-harmonics
  constants are those of the real basis up to degree 3. The pixel block is 2 by 1, so
  that a whole warp can be evaluated; the spec's example is 16 by 16.
\<close>

definition demo_aux :: auxiliary where
  "demo_aux =
     \<lparr>SH_C0 = 0.28209479177387814,
      SH_C1 = 0.4886025119029199,
      SH_C2 = (\<lambda>k. [1.0925484305920792, - 1.0925484305920792, 0.31539156525252005,
                      - 1.0925484305920792, 0.5462742152960396] ! k),
      SH_C3 = (\<lambda>k. [- 0.5900435899266435, 2.890611442640554, - 0.4570457994644658,
                      0.3731763325901154, - 0.4570457994644658, 1.445305721320277,
                      - 0.5900435899266435] ! k),
      dnormvdv = (\<lambda>v dv.
         (1 / (glm_length v * glm_length v * glm_length v)) *\<^sub>R
           ((glm_length v * glm_length v) *\<^sub>R dv - glm_dot v dv *\<^sub>R v)),
      transformPoint4x3 = (\<lambda>p m. float3
         (m 0 * x3 p + m 4 * y3 p + m 8 * z3 p + m 12)
         (m 1 * x3 p + m 5 * y3 p + m 9 * z3 p + m 13)
         (m 2 * x3 p + m 6 * y3 p + m 10 * z3 p + m 14)),
      transformPoint4x4 = (\<lambda>p m. float4
         (m 0 * x3 p + m 4 * y3 p + m 8 * z3 p + m 12)
         (m 1 * x3 p + m 5 * y3 p + m 9 * z3 p + m 13)
         (m 2 * x3 p + m 6 * y3 p + m 10 * z3 p + m 14)
         (m 3 * x3 p + m 7 * y3 p + m 11 * z3 p + m 15)),
      transformVec4x3Transpose = (\<lambda>p m. float3
         (m 0 * x3 p + m 1 * y3 p + m 2 * z3 p)
         (m 4 * x3 p + m 5 * y3 p + m 6 * z3 p)
         (m 8 * x3 p + m 9 * y3 p + m 10 * z3 p)),
      BLOCK_X = 2, BLOCK_Y = 1, BLOCK_SIZE = 2\<rparr>"

text \<open>The 4 by 4 identity matrix in a flat buffer.\<close>

definition identity4 :: "int \<Rightarrow> float" where
  "identity4 k = (if k = 0 \<or> k = 5 \<or> k = 10 \<or> k = 15 then 1 else 0)"

text \<open>
  A scene for the compositing kernel: an image of 2 by 1 pixels, one tile, three
  channels. The tile's sorted list has 33 entries, hence two buckets: 32 times
  primitive 0, which is fully transparent, then primitive 1, centred on pixel (1, 0),
  of opacity one half, colour white and depth 1. At pixel (1, 0) only the last entry
  contributes, with alpha one half; at pixel (0, 0) its alpha is below 1/255 and
  nothing contributes. The forward results below are those of front-to-back
  compositing over a black background; every upstream gradient is 1.
\<close>

definition demo_scene :: render_args where
  "demo_scene =
     \<lparr>ranges = (\<lambda>i. uint2 0 33),
      point_list = (\<lambda>i. if i = 32 then 1 else 0),
      W = 2, H = 1, B = 2,
      per_tile_bucket_offset = (\<lambda>i. 2),
      bucket_to_tile = (\<lambda>i. 0),
      sampled_T = (\<lambda>i. 1),
      sampled_ar = (\<lambda>i. 0),
      sampled_ard = (\<lambda>i. 0),
      bg_color = (\<lambda>i. 0),
      points_xy_image = (\<lambda>i. float2 1 0),
      conic_opacity = (\<lambda>i. if i = 1 then float4 10 0 10 (1 / 2) else float4 10 0 10 0),
      colors = (\<lambda>i. 1),
      depths = (\<lambda>i. 1),
      final_Ts = (\<lambda>i. if i = 1 then 1 / 2 else 1),
      n_contrib = (\<lambda>i. if i = 1 then 33 else 0),
      max_contrib = (\<lambda>i. 33),
      pixel_colors = (\<lambda>i. if i mod 2 = 1 then 1 / 2 else 0),
      pixel_invDepths = (\<lambda>i. if i = 1 then 1 / 2 else 0),
      dL_dpixels = (\<lambda>i. 1),
      dL_invdepths = (\<lambda>i. 1)\<rparr>"

definition demo_junk :: "nat \<Rightarrow> pixel_state" where
  "demo_junk k =
     \<lparr>T = 0, T_final = 0, last_contributor = 0, ar = (\<lambda>ch. 0), ard = 0,
      dL_dpixel = (\<lambda>ch. 0), dL_invdepth = 0\<rparr>"

definition demo_buffers :: grad_buffers where
  "demo_buffers =
     \<lparr>dL_dmean2D = (\<lambda>i. float4 0 0 0 0), dL_dconic2D = (\<lambda>i. float4 0 0 0 0),
      dL_dopacity = (\<lambda>i. 0), dL_dcolors = (\<lambda>i. 0), dL_dinvdepths = (\<lambda>i. 0),
      dL_dmeans = (\<lambda>i. float3 0 0 0), dL_dcov = (\<lambda>i. 0), dL_ddc = (\<lambda>i. 0),
      dL_dsh = (\<lambda>i. 0), dL_dscales = (\<lambda>i. float3 0 0 0),
      dL_drots = (\<lambda>i. float4 0 0 0 0)\<rparr>"

text \<open>Lane 0 of the scene's second bucket holds the visible primitive; this is what it
  loads about it, and the state of pixel (1, 0) as that bucket's lane 0 reads it.\<close>

definition visible_splat :: splat where
  "visible_splat =
     \<lparr>valid_splat = True, splat_idx_in_tile = 32, gaussian_idx = 1, xy = float2 1 0,
      con_o = float4 10 0 10 (1 / 2), c = (\<lambda>ch. if ch < 3 then 1 else 0), invd = 1\<rparr>"

definition visible_pixel :: pixel_state where
  "visible_pixel =
     \<lparr>T = 1, T_final = 1 / 2, last_contributor = 33, ar = (\<lambda>ch. if ch < 3 then - (1 / 2) else 0),
      ard = - (1 / 2), dL_dpixel = (\<lambda>ch. if ch < 3 then 1 else 0), dL_invdepth = 1\<rparr>"

text \<open>A primitive whose conic is negative definite, as a degenerate projection can
  leave it, one unit to the right of pixel (0, 0), and a pixel state that has one
  contributor and nothing accumulated yet.\<close>

definition inverted_splat :: splat where
  "inverted_splat =
     \<lparr>valid_splat = True, splat_idx_in_tile = 0, gaussian_idx = 0, xy = float2 1 0,
      con_o = float4 (- 1) 0 (- 1) 1, c = (\<lambda>ch. 1), invd = 1\<rparr>"

definition fresh_pixel :: pixel_state where
  "fresh_pixel =
     \<lparr>T = 1, T_final = 1, last_contributor = 1, ar = (\<lambda>ch. 0), ard = 0,
      dL_dpixel = (\<lambda>ch. 1), dL_invdepth = 1\<rparr>"

text \<open>The same scene with a tile maximum of one contributor.\<close>

definition sparse_scene :: render_args where
  "sparse_scene = demo_scene\<lparr>max_contrib := (\<lambda>i. 1)\<rparr>"

text \<open>
  A second scene for the compositing kernel, with the same image, tile and two buckets.
  The tile's sorted list starts with primitive 2, whose conic is zero, so that its
  footprint is 1 everywhere and its alpha is one half at both pixels; then 31 times the
  fully transparent primitive 0; then primitive 1, of opacity one half, centred half way
  between the two pixels, so that its offsets to them are \<open>(1/2, 0)\<close> and
  \<open>(- 1/2, 0)\<close>, its exponent is \<open>- 1\<close> and its alpha is \<open>exp (- 1) / 2\<close> at both.
  The checkpoint of the second bucket is the state after the first: transmittance,
  colour and depth one half. The final transmittance is \<open>1/2 - exp (- 1) / 4\<close>; the
  upstream colour gradient is 3 at pixel (0, 0) and 1 at pixel (1, 0), the background
  is black.
\<close>

definition between_scene :: render_args where
  "between_scene =
     \<lparr>ranges = (\<lambda>i. uint2 0 33),
      point_list = (\<lambda>i. if i = 0 then 2 else if i = 32 then 1 else 0),
      W = 2, H = 1, B = 2,
      per_tile_bucket_offset = (\<lambda>i. 2),
      bucket_to_tile = (\<lambda>i. 0),
      sampled_T = (\<lambda>i. if i < 2 then 1 else 1 / 2),
      sampled_ar = (\<lambda>i. if i < 6 then 0 else 1 / 2),
      sampled_ard = (\<lambda>i. if i < 2 then 0 else 1 / 2),
      bg_color = (\<lambda>i. 0),
      points_xy_image = (\<lambda>i. float2 (1 / 2) 0),
      conic_opacity = (\<lambda>i. if i = 1 then float4 8 0 8 (1 / 2)
                            else if i = 2 then float4 0 0 0 (1 / 2) else float4 8 0 8 0),
      colors = (\<lambda>i. 1),
      depths = (\<lambda>i. 1),
      final_Ts = (\<lambda>i. 1 / 2 - exp (- 1) / 4),
      n_contrib = (\<lambda>i. 33),
      max_contrib = (\<lambda>i. 33),
      pixel_colors = (\<lambda>i. 1 / 2 + exp (- 1) / 4),
      pixel_invDepths = (\<lambda>i. 1 / 2 + exp (- 1) / 4),
      dL_dpixels = (\<lambda>i. if i mod 2 = 0 then 3 else 1),
      dL_invdepths = (\<lambda>i. 0)\<rparr>"


definition between_splat :: splat where
  "between_splat =
     \<lparr>valid_splat = True, splat_idx_in_tile = 32, gaussian_idx = 1, xy = float2 (1 / 2) 0,
      con_o = float4 8 0 8 (1 / 2), c = (\<lambda>ch. if ch < 3 then 1 else 0), invd = 1\<rparr>"




text \<open>
  Inputs for the two preprocessing kernels: one primitive on the optical axis at depth
  1, seen through the identity view matrix with unit focal lengths, so that the
  projected covariance is the upper-left block of the 3D covariance. With
  \<open>round_cov3Ds\<close> the projected covariance is 0.3 times the identity; with
  \<open>singular_cov3Ds\<close> it is symmetric with diagonal 0.7 and off-diagonal 1, so that the
  regularised covariance has all four entries 1 and determinant 0. In
  \<open>camera_plane_means\<close> the primitive sits at the camera centre, and in \<open>flat_scene\<close>
  the depth buffer of the compositing scene holds 0.
\<close>

definition demo_means :: "int \<Rightarrow> float3" where
  "demo_means i = float3 0 0 1"

definition singular_cov3Ds :: "int \<Rightarrow> float" where
  "singular_cov3Ds k = (if k = 0 \<or> k = 3 then 0.7 else if k = 1 then 1 else 0)"

definition round_cov3Ds :: "int \<Rightarrow> float" where
  "round_cov3Ds k = (if k = 0 \<or> k = 3 then 0.3 else 0)"

definition camera_plane_means :: "int \<Rightarrow> float3" where
  "camera_plane_means i = float3 0 0 0"

definition flat_scene :: render_args where
  "flat_scene = demo_scene\<lparr>depths := (\<lambda>i. 0)\<rparr>"

section \<open>Properties of Covariance3DBackward\<close>

lemma contract3_unfold:
  "contract3 X Y = X 0 0 * Y 0 0 + X 0 1 * Y 0 1 + X 0 2 * Y 0 2
     + X 1 0 * Y 1 0 + X 1 1 * Y 1 1 + X 1 2 * Y 1 2
     + X 2 0 * Y 2 0 + X 2 1 * Y 2 1 + X 2 2 * Y 2 2"
  by (simp add: contract3_def eval_nat_numeral)

lemmas mat_defs = mat3_def glm_mul_def glm_transpose_def glm_scale_def scale_columns_def
  quat_R_def scale_S_def cov3D_dL_dq_def

text \<open>With the gradient \<open>dL_dM\<close> with respect to \<open>M = S * R\<close> held fixed, the loss
  varies with the quaternion as \<open>contract3 dL_dM (S * R(q))\<close>. Its four partial
  derivatives are the four components the kernel computes.\<close>

lemma dL_dq_r:
  "((\<lambda>r. contract3 dL_dM (glm_mul (scale_S s) (quat_R r x y z))) has_real_derivative
      x4 (cov3D_dL_dq r x y z (scale_columns s (glm_transpose dL_dM)))) (at r)"
  unfolding contract3_unfold
  by (simp add: mat_defs) (auto intro!: derivative_eq_intros simp: algebra_simps)

lemma dL_dq_x:
  "((\<lambda>x. contract3 dL_dM (glm_mul (scale_S s) (quat_R r x y z))) has_real_derivative
      y4 (cov3D_dL_dq r x y z (scale_columns s (glm_transpose dL_dM)))) (at x)"
  unfolding contract3_unfold
  by (simp add: mat_defs) (auto intro!: derivative_eq_intros simp: algebra_simps)

lemma dL_dq_y:
  "((\<lambda>y. contract3 dL_dM (glm_mul (scale_S s) (quat_R r x y z))) has_real_derivative
      z4 (cov3D_dL_dq r x y z (scale_columns s (glm_transpose dL_dM)))) (at y)"
  unfolding contract3_unfold
  by (simp add: mat_defs) (auto intro!: derivative_eq_intros simp: algebra_simps)

lemma dL_dq_z:
  "((\<lambda>z. contract3 dL_dM (glm_mul (scale_S s) (quat_R r x y z))) has_real_derivative
      w4 (cov3D_dL_dq r x y z (scale_columns s (glm_transpose dL_dM)))) (at z)"
  unfolding contract3_unfold
  by (simp add: mat_defs) (auto intro!: derivative_eq_intros simp: algebra_simps)

lemma computeCov3D_dL_drots:
  "dL_drots (computeCov3D idx scale modifier rot dL_dcov3Ds b) idx =
     cov3D_dL_dq (x4 rot) (y4 rot) (z4 rot) (w4 rot)
       (scale_columns (modifier *\<^sub>R scale)
          (glm_transpose (cov3D_dL_dM
             (glm_mul (scale_S (modifier *\<^sub>R scale)) (quat_R (x4 rot) (y4 rot) (z4 rot) (w4 rot)))
             (cov3D_dL_dSigma dL_dcov3Ds idx))))"
  by (simp add: computeCov3D_def Let_def)

text \<open>
  Claim C9. For every primitive that \<^verbatim>\<open>computeCov3D\<close> processes, the four-component
  quaternion gradient it writes to the rotation-gradient buffer is the Jacobian of the
  map from the quaternion to the rotation matrix, applied to the scale-weighted
  gradient with respect to \<open>M\<close>: each component is the partial derivative, at the
  primitive's quaternion, of the pairing of \<open>dL_dM\<close> with \<open>S * R(q)\<close>. The value is
  stored as computed: nothing renormalises it or projects it onto the tangent space of
  the unit quaternions.
\<close>

theorem computeCov3D_quaternion_gradient:
  "(let q = dL_drots (computeCov3D idx scale modifier rot dL_dcov3Ds b) idx;
        s = modifier *\<^sub>R scale;
        dL_dM = cov3D_dL_dM
                  (glm_mul (scale_S s) (quat_R (x4 rot) (y4 rot) (z4 rot) (w4 rot)))
                  (cov3D_dL_dSigma dL_dcov3Ds idx);
        L = (\<lambda>r x y z. contract3 dL_dM (glm_mul (scale_S s) (quat_R r x y z)))
    in q = cov3D_dL_dq (x4 rot) (y4 rot) (z4 rot) (w4 rot)
             (scale_columns s (glm_transpose dL_dM))
       \<and> ((\<lambda>r. L r (y4 rot) (z4 rot) (w4 rot)) has_real_derivative x4 q) (at (x4 rot))
       \<and> ((\<lambda>x. L (x4 rot) x (z4 rot) (w4 rot)) has_real_derivative y4 q) (at (y4 rot))
       \<and> ((\<lambda>y. L (x4 rot) (y4 rot) y (w4 rot)) has_real_derivative z4 q) (at (z4 rot))
       \<and> ((\<lambda>z. L (x4 rot) (y4 rot) (z4 rot) z) has_real_derivative w4 q) (at (w4 rot)))"
  unfolding Let_def computeCov3D_dL_drots
  by (intro conjI refl dL_dq_r dL_dq_x dL_dq_y dL_dq_z)

section \<open>Properties of TileRenderBackward\<close>

lemma channel_fold:
  "fold (channel_step a s Tin alpha weight dLp) [0..<n] (arv, Rc, u, v) =
     ((\<lambda>ch. if ch < n then arv ch + weight * c s ch else arv ch),
      (\<lambda>ch. if ch < n then Rc ch + weight * dLp ch else Rc ch),
      u + (\<Sum>ch<n. ((c s ch * Tin) - (1 / (1 - alpha)) * (- (arv ch + weight * c s ch))) * dLp ch),
      v + (\<Sum>ch<n. bg_color a (int ch) * dLp ch))"
proof (induction n)
  case 0
  show ?case by simp
next
  case (Suc n)
  have "fold (channel_step a s Tin alpha weight dLp) [0..<Suc n] (arv, Rc, u, v) =
          channel_step a s Tin alpha weight dLp n
            (fold (channel_step a s Tin alpha weight dLp) [0..<n] (arv, Rc, u, v))"
    by simp
  also have "\<dots> = ((\<lambda>ch. if ch < Suc n then arv ch + weight * c s ch else arv ch),
      (\<lambda>ch. if ch < Suc n then Rc ch + weight * dLp ch else Rc ch),
      u + (\<Sum>ch<Suc n. ((c s ch * Tin) - (1 / (1 - alpha)) * (- (arv ch + weight * c s ch))) * dLp ch),
      v + (\<Sum>ch<Suc n. bg_color a (int ch) * dLp ch))"
    unfolding Suc by (auto simp add: channel_step_def Let_def fun_eq_iff diff_divide_distrib add_divide_distrib)
  finally show ?case .
qed

lemma add_registers_zero [simp]: "add_registers r zero_registers = r"
  by (simp add: add_registers_def zero_registers_def)

lemma do_work_split:
  "do_work a C s pix (p, r) = (work_state a C s pix p, add_registers r (work_delta a C s pix p))"
  by (simp add: work_state_def work_delta_def do_work_def Let_def channel_fold
      add_registers_def zero_registers_def fun_eq_iff)

lemma do_work_skip_last:
  "real_of_int (splat_idx_in_tile s) \<ge> last_contributor p \<Longrightarrow> do_work a C s pix (p, r) = (p, r)"
  by (simp add: do_work_def Let_def)

lemma do_work_keeps:
  "T_final (work_state a C s pix p) = T_final p"
  "last_contributor (work_state a C s pix p) = last_contributor p"
  "dL_dpixel (work_state a C s pix p) = dL_dpixel p"
  "dL_invdepth (work_state a C s pix p) = dL_invdepth p"
  by (simp_all add: work_state_def do_work_def Let_def channel_fold)

lemma loop_upto_0: "loop_upto aux a C g junk 0 = (\<lambda>k. (junk k, zero_registers))"
  by (simp add: loop_upto_def)

lemma loop_upto_Suc:
  "loop_upto aux a C g junk (Suc n) = iteration aux a C g (int n) (loop_upto aux a C g junk n)"
  by (simp add: loop_upto_def)

lemma lane_total_Suc:
  "lane_total aux a C g k (Suc m) = lane_add aux a C g k m (lane_total aux a C g k m)"
  by (simp add: lane_total_def)

lemma valid_splat_mono:
  "valid_splat (load_splat a C g (Suc k)) \<Longrightarrow> valid_splat (load_splat a C g k)"
  by (auto simp add: load_splat_def Let_def split: if_splits)

lemma inv_state:
  "0 \<le> int i - int k \<Longrightarrow> int i - int k < BLOCK_SIZE aux
   \<Longrightarrow> valid_splat (load_splat a C g k)
   \<Longrightarrow> valid_pixel a (pix_of aux a (tile_id_of a g) (int i - int k))
   \<Longrightarrow> fst (loop_upto aux a C g junk (Suc i) k) = bucket_scan aux a C g (int i - int k) (Suc k)"
proof (induction i arbitrary: k)
  case 0
  then have k: "k = 0" by simp
  show ?case using 0 unfolding k
    by (simp add: loop_upto_Suc iteration_def Let_def do_work_split)
next
  case (Suc i)
  show ?case
  proof (cases k)
    case 0
    show ?thesis using Suc.prems unfolding 0
      by (simp add: loop_upto_Suc [of _ _ _ _ _ "Suc i"] iteration_def Let_def do_work_split)
  next
    case (Suc k')
    have idx: "int (Suc i) - int k = int i - int k'" using Suc by simp
    have prev: "fst (loop_upto aux a C g junk (Suc i) k') = bucket_scan aux a C g (int i - int k') (Suc k')"
      using Suc.prems unfolding idx Suc
      by (intro Suc.IH) (auto dest: valid_splat_mono)
    show ?thesis using Suc.prems unfolding idx
      by (simp add: loop_upto_Suc [of _ _ _ _ _ "Suc i"] iteration_def Let_def do_work_split Suc
          prev idx)
  qed
qed

lemma lane_input:
  assumes "k \<le> n" "int n - int k < BLOCK_SIZE aux"
    "valid_splat (load_splat a C g k)"
    "valid_pixel a (pix_of aux a (tile_id_of a g) (int n - int k))"
  shows "(if k = 0 then load_pixel aux a C g (int n - int k) (pix_of aux a (tile_id_of a g) (int n - int k))
          else fst (loop_upto aux a C g junk n (k - 1)))
         = bucket_scan aux a C g (int n - int k) k"
proof (cases k)
  case 0
  then show ?thesis by simp
next
  case (Suc k')
  then obtain i where n: "n = Suc i" using assms(1) by (cases n) auto
  have idx: "int n - int k = int i - int k'" using n Suc by simp
  have "fst (loop_upto aux a C g junk (Suc i) k') = bucket_scan aux a C g (int i - int k') (Suc k')"
    using assms unfolding idx Suc n
    by (intro inv_state) (auto dest: valid_splat_mono)
  then show ?thesis unfolding idx by (simp add: Suc n)
qed

lemma inv_regs:
  "snd (loop_upto aux a C g junk n k) =
     (if valid_splat (load_splat a C g k)
      then lane_total aux a C g k (min (n - k) (nat (BLOCK_SIZE aux)))
      else zero_registers)"
proof (induction n)
  case 0
  show ?case by (simp add: loop_upto_0 lane_total_def)
next
  case (Suc n)
  let ?s = "load_splat a C g k"
  let ?idx = "int n - int k"
  let ?pix = "pix_of aux a (tile_id_of a g) ?idx"
  show ?case
  proof (cases "valid_splat ?s \<and> 0 \<le> ?idx \<and> ?idx < BLOCK_SIZE aux")
    case False
    then consider "\<not> valid_splat ?s" | "valid_splat ?s" "n < k"
      | "valid_splat ?s" "k \<le> n" "BLOCK_SIZE aux \<le> ?idx"
      by linarith
    then show ?thesis
    proof cases
      case 1
      then show ?thesis using Suc by (simp add: loop_upto_Suc iteration_def Let_def)
    next
      case 2
      then have "n - k = 0" "Suc n - k = 0" by simp_all
      then show ?thesis using Suc 2 by (simp add: loop_upto_Suc iteration_def Let_def)
    next
      case 3
      then have "min (n - k) (nat (BLOCK_SIZE aux)) = nat (BLOCK_SIZE aux)"
        "min (Suc n - k) (nat (BLOCK_SIZE aux)) = nat (BLOCK_SIZE aux)" by linarith+
      then show ?thesis using Suc 3 by (simp add: loop_upto_Suc iteration_def Let_def)
    qed
  next
    case True
    then have vs: "valid_splat ?s" and kn: "k \<le> n" and lt: "?idx < BLOCK_SIZE aux" by auto
    have m1: "min (n - k) (nat (BLOCK_SIZE aux)) = n - k" using kn lt by linarith
    have m2: "min (Suc n - k) (nat (BLOCK_SIZE aux)) = Suc (n - k)" using kn lt by linarith
    have ix: "int (n - k) = ?idx" using kn by simp
    show ?thesis
    proof (cases "valid_pixel a ?pix")
      case False
      then show ?thesis using Suc vs
        by (simp add: loop_upto_Suc iteration_def Let_def m1 m2 lane_total_Suc lane_add_def ix)
    next
      case vp: True
      have inp: "(if k = 0 then load_pixel aux a C g ?idx ?pix
          else fst (loop_upto aux a C g junk n (k - 1))) = bucket_scan aux a C g ?idx k"
        using kn lt vs vp by (rule lane_input)
      show ?thesis
      proof (cases "k = 0")
        case True
        then show ?thesis using Suc vs vp True lt kn inp
          by (simp add: loop_upto_Suc iteration_def Let_def m1 m2 lane_total_Suc lane_add_def ix
              do_work_split)
      next
        case False
        then show ?thesis using Suc vs vp lt kn inp
          by (simp add: loop_upto_Suc iteration_def Let_def m1 m2 lane_total_Suc lane_add_def ix
              do_work_split)
      qed
    qed
  qed
qed


lemma bucket_scan_keeps:
  "T_final (bucket_scan aux a C g idx k) = T_final (bucket_scan aux a C g idx 0)"
  "last_contributor (bucket_scan aux a C g idx k) = last_contributor (bucket_scan aux a C g idx 0)"
  "dL_dpixel (bucket_scan aux a C g idx k) = dL_dpixel (bucket_scan aux a C g idx 0)"
  "dL_invdepth (bucket_scan aux a C g idx k) = dL_invdepth (bucket_scan aux a C g idx 0)"
  by (induction k) (simp_all add: do_work_keeps)



lemma work_delta_skip:
  "real_of_int (splat_idx_in_tile s) \<ge> last_contributor p \<Longrightarrow> work_delta a C s pix p = zero_registers"
  by (simp add: work_delta_def do_work_skip_last)

lemma work_state_skip:
  "real_of_int (splat_idx_in_tile s) \<ge> last_contributor p \<Longrightarrow> work_state a C s pix p = p"
  by (simp add: work_state_def do_work_skip_last)


lemma uint_word_of_int_32: "0 \<le> k \<Longrightarrow> k < 2 ^ 32 \<Longrightarrow> uint (word_of_int k :: 32 word) = k"
  by (simp add: uint_word_of_int)






lemma unat_le_real: "uint w \<le> k \<Longrightarrow> real (unat w) \<le> real_of_int k"
proof -
  assume "uint w \<le> k"
  then have "real_of_int (uint w) \<le> real_of_int k" by (simp only: of_int_le_iff)
  then show ?thesis by simp
qed






lemma render_loop_upto:
  "render_loop aux a C g junk = loop_upto aux a C g junk (nat (BLOCK_SIZE aux + 31))"
  by (simp add: render_loop_def)

lemma render_loop_regs:
  assumes "k < 32"
  shows "snd (render_loop aux a C g junk k) =
     (if valid_splat (load_splat a C g k)
      then lane_total aux a C g k (nat (BLOCK_SIZE aux)) else zero_registers)"
proof -
  have "min (nat (BLOCK_SIZE aux + 31) - k) (nat (BLOCK_SIZE aux)) = nat (BLOCK_SIZE aux)"
    using assms by linarith
  then show ?thesis by (simp add: render_loop_upto inv_regs)
qed








lemma lane_total_mean2D:
  "Register_dL_dmean2D_x (lane_total aux a C g k m) =
     (\<Sum>idx<m. if valid_pixel a (pix_of aux a (tile_id_of a g) (int idx))
        then Register_dL_dmean2D_x (work_delta a C (load_splat a C g k)
               (pix_of aux a (tile_id_of a g) (int idx)) (bucket_scan aux a C g (int idx) k))
        else 0)"
  "Register_dL_dmean2D_y (lane_total aux a C g k m) =
     (\<Sum>idx<m. if valid_pixel a (pix_of aux a (tile_id_of a g) (int idx))
        then Register_dL_dmean2D_y (work_delta a C (load_splat a C g k)
               (pix_of aux a (tile_id_of a g) (int idx)) (bucket_scan aux a C g (int idx) k))
        else 0)"
  by (induction m)
     (simp_all add: lane_total_def lane_add_def Let_def add_registers_def zero_registers_def)

lemma fold_keeps:
  assumes "\<And>j b. j \<in> set js \<Longrightarrow> f (thread j b) = f b"
  shows "f (fold thread js b) = f b"
  using assms by (induction js arbitrary: b) simp_all


subsection \<open>One sample of the kernel, in closed form\<close>

lemma neg_quotient: "- ((- u - v) / d) = (u + v) / (d::real)"
  by (cases "d = 0") (simp_all add: field_simps)

lemma valid_pixel_inside:
  "valid_pixel a pix \<Longrightarrow> \<not> (word_of_int (W a) \<le> ux pix \<or> word_of_int (H a) \<le> uy pix)"
  by (auto simp add: valid_pixel_def)


lemma work_delta_composited:
  assumes "valid_pixel a pix" "real_of_int (splat_idx_in_tile s) < last_contributor p"
    "power_of s (pixel_centre pix) \<le> 0" "\<not> alpha_of s (pixel_centre pix) < 1 / 255"
  shows "work_delta a C s pix p =
     (let pixf = pixel_centre pix;
          dx = x2 (xy s) - x2 pixf;
          dy = y2 (xy s) - y2 pixf;
          G = G_of s pixf;
          weight = alpha_of s pixf * T p;
          dL_dG = w4 (con_o s) * work_dL_dalpha a C s pix p
      in \<lparr>Register_dL_dmean2D_x =
             dL_dG * (- (G * dx) * x4 (con_o s) - G * dy * y4 (con_o s)) * (0.5 * real_of_int (W a)),
           Register_dL_dmean2D_y =
             dL_dG * (- (G * dy) * z4 (con_o s) - G * dx * y4 (con_o s)) * (0.5 * real_of_int (H a)),
           Register_dL_dconic2D_x = - 0.5 * (G * dx) * dx * dL_dG,
           Register_dL_dconic2D_y = - 0.5 * (G * dx) * dy * dL_dG,
           Register_dL_dconic2D_w = - 0.5 * (G * dy) * dy * dL_dG,
           Register_dL_dopacity = G * work_dL_dalpha a C s pix p,
           Register_dL_dcolors = (\<lambda>ch. if ch < C then weight * dL_dpixel p ch else 0),
           Register_dL_dinvdepths = weight * dL_invdepth p\<rparr>)"
  unfolding work_delta_def do_work_def pixel_centre_def [symmetric]
  using assms valid_pixel_inside [OF assms(1)]
  by (simp add: Let_def channel_fold work_dL_dalpha_def zero_registers_def fun_eq_iff
      neg_quotient)

subsection \<open>The scene\<close>

lemma demo_pix:
  "pix_of demo_aux demo_scene 0 0 = uint2 0 0"
  "pix_of demo_aux demo_scene 0 1 = uint2 1 0"
  by (simp_all add: pix_of_def pix_min_def horizontal_blocks_def demo_aux_def demo_scene_def
      Let_def signed_divide_int_def signed_modulo_int_def)

lemma demo_tile_id: "tile_id_of demo_scene g = 0"
  by (simp add: tile_id_of_def demo_scene_def)

lemma three_cases: "ch < 3 \<Longrightarrow> ch = 0 \<or> ch = 1 \<or> ch = (2::nat)"
  by arith

lemma demo_load_splat: "load_splat demo_scene 3 1 0 = visible_splat"
  by (simp add: load_splat_def Let_def bucket_idx_in_tile_def bbm_of_def tile_id_of_def
      num_splats_in_tile_def demo_scene_def visible_splat_def fun_eq_iff)

lemma demo_load_pixel:
  "load_pixel demo_aux demo_scene 3 1 1 (uint2 1 0) = visible_pixel"
proof -
  have "pixel_colors demo_scene (uint (word_of_int (int ch * H demo_scene * W demo_scene)
          + pix_id_of demo_scene (uint2 1 0) :: 32 word)) = 1 / 2" if "ch < 3" for ch
    using three_cases [OF that] by (auto simp add: demo_scene_def pix_id_of_def)
  then show ?thesis
    by (simp add: load_pixel_def Let_def visible_pixel_def fun_eq_iff)
       (simp add: demo_scene_def demo_aux_def pix_id_of_def)
qed

lemma visible_alpha: "alpha_of visible_splat (float2 1 0) = 1 / 2"
  by (simp add: alpha_of_def G_of_def power_of_def visible_splat_def Let_def)

lemma visible_power: "power_of visible_splat (float2 1 0) = 0"
  by (simp add: power_of_def visible_splat_def Let_def)

lemma visible_delta:
  "work_delta demo_scene 3 visible_splat (uint2 1 0) visible_pixel =
     \<lparr>Register_dL_dmean2D_x = 0, Register_dL_dmean2D_y = 0, Register_dL_dconic2D_x = 0,
      Register_dL_dconic2D_y = 0, Register_dL_dconic2D_w = 0, Register_dL_dopacity = 4,
      Register_dL_dcolors = (\<lambda>ch. if ch < 3 then 1 / 2 else 0), Register_dL_dinvdepths = 1 / 2\<rparr>"
proof -
  have pf: "float2 (real (unat (ux (uint2 1 0)))) (real (unat (uy (uint2 1 0)))) = float2 1 0"
    by simp
  have s3: "(\<Sum>ch<3. f ch) = f 0 + f 1 + f (2::nat)" for f :: "nat \<Rightarrow> real"
    by (simp add: eval_nat_numeral)
  show ?thesis
    unfolding work_delta_def do_work_def Let_def pf visible_alpha visible_power channel_fold
    by (simp add: G_of_def visible_power s3)
       (simp add: visible_splat_def visible_pixel_def zero_registers_def demo_scene_def fun_eq_iff
          word_le_def)
qed

lemma demo_lane0_total:
  "lane_total demo_aux demo_scene 3 1 0 2 =
     \<lparr>Register_dL_dmean2D_x = 0, Register_dL_dmean2D_y = 0, Register_dL_dconic2D_x = 0,
      Register_dL_dconic2D_y = 0, Register_dL_dconic2D_w = 0, Register_dL_dopacity = 4,
      Register_dL_dcolors = (\<lambda>ch. if ch < 3 then 1 / 2 else 0), Register_dL_dinvdepths = 1 / 2\<rparr>"
proof -
  have v0: "valid_pixel demo_scene (uint2 0 0)" and v1: "valid_pixel demo_scene (uint2 1 0)"
    by (simp_all add: valid_pixel_def demo_scene_def)
  have d0: "work_delta demo_scene 3 visible_splat (uint2 0 0)
              (load_pixel demo_aux demo_scene 3 1 0 (uint2 0 0)) = zero_registers"
    by (rule work_delta_skip)
       (simp add: load_pixel_def Let_def pix_id_of_def visible_splat_def demo_scene_def)
  have "lane_total demo_aux demo_scene 3 1 0 2
        = lane_add demo_aux demo_scene 3 1 0 1 (lane_add demo_aux demo_scene 3 1 0 0 zero_registers)"
    by (simp add: lane_total_def eval_nat_numeral)
  then show ?thesis
    by (simp add: lane_add_def Let_def demo_tile_id demo_pix v0 v1 demo_load_splat d0
        demo_load_pixel visible_delta add_registers_def zero_registers_def)
qed

lemma demo_lane0_total1: "lane_total demo_aux demo_scene 3 1 0 (Suc 0) = zero_registers"
proof -
  have v0: "valid_pixel demo_scene (uint2 0 0)"
    by (simp_all add: valid_pixel_def demo_scene_def)
  have d0: "work_delta demo_scene 3 visible_splat (uint2 0 0)
              (load_pixel demo_aux demo_scene 3 1 0 (uint2 0 0)) = zero_registers"
    by (rule work_delta_skip)
       (simp add: load_pixel_def Let_def pix_id_of_def visible_splat_def demo_scene_def)
  show ?thesis
    by (simp add: lane_total_def lane_add_def Let_def demo_tile_id demo_pix v0 demo_load_splat d0)
qed

lemma inverted_power: "power_of inverted_splat (float2 0 0) = 1 / 2"
  by (simp add: power_of_def inverted_splat_def Let_def)

lemma inverted_alpha: "alpha_of inverted_splat (float2 0 0) = 99 / 100"
proof -
  have "(1::real) \<le> exp (1 / 2)" by simp
  then have "(99 / 100 :: real) \<le> exp (1 / 2)" by linarith
  then have "min (99 / 100 :: real) (exp (1 / 2)) = 99 / 100" by (rule min_absorb1)
  then show ?thesis
    by (simp add: alpha_of_def G_of_def inverted_power) (simp add: inverted_splat_def)
qed

subsection \<open>The scene with a primitive between two pixels\<close>

lemma between_pix:
  "pix_of demo_aux between_scene 0 0 = uint2 0 0"
  "pix_of demo_aux between_scene 0 1 = uint2 1 0"
  by (simp_all add: pix_of_def pix_min_def horizontal_blocks_def demo_aux_def between_scene_def
      Let_def signed_divide_int_def signed_modulo_int_def)

lemma between_valid:
  "valid_pixel between_scene (uint2 0 0)" "valid_pixel between_scene (uint2 1 0)"
  by (simp_all add: valid_pixel_def between_scene_def)

lemma exp_bounds: "exp (- 1) \<le> (1::real)" "(1::real) / 3 \<le> exp (- 1)" "0 < exp (- 1 :: real)"
proof -
  show "exp (- 1) \<le> (1::real)" by simp
  have "exp (1::real) * exp (- 1) \<le> 3 * exp (- 1)"
    by (rule mult_right_mono [OF exp_le]) simp
  moreover have "exp (1::real) * exp (- 1) = 1" by (simp add: exp_add [symmetric])
  ultimately show "(1::real) / 3 \<le> exp (- 1)" by simp
  show "0 < exp (- 1 :: real)" by simp
qed

lemma sum_three: "(\<Sum>ch<3. f ch) = f 0 + f 1 + f (2::nat)" for f :: "nat \<Rightarrow> real"
  by (simp add: eval_nat_numeral)

lemma between_load_splat: "load_splat between_scene 3 1 0 = between_splat"
  by (simp add: load_splat_def Let_def bucket_idx_in_tile_def bbm_of_def tile_id_of_def
      num_splats_in_tile_def between_scene_def between_splat_def fun_eq_iff)

lemma between_tile_id: "tile_id_of between_scene g = 0"
  by (simp add: tile_id_of_def between_scene_def)

lemma between_load_pixel:
  "load_pixel demo_aux between_scene 3 1 0 (uint2 0 0) =
     \<lparr>T = 1 / 2, T_final = 1 / 2 - exp (- 1) / 4, last_contributor = 33,
      ar = (\<lambda>ch. if ch < 3 then - (exp (- 1) / 4) else 0), ard = - (exp (- 1) / 4),
      dL_dpixel = (\<lambda>ch. if ch < 3 then 3 else 0), dL_invdepth = 0\<rparr>"
  "load_pixel demo_aux between_scene 3 1 1 (uint2 1 0) =
     \<lparr>T = 1 / 2, T_final = 1 / 2 - exp (- 1) / 4, last_contributor = 33,
      ar = (\<lambda>ch. if ch < 3 then - (exp (- 1) / 4) else 0), ard = - (exp (- 1) / 4),
      dL_dpixel = (\<lambda>ch. if ch < 3 then 1 else 0), dL_invdepth = 0\<rparr>"
  by (auto simp add: load_pixel_def Let_def fun_eq_iff pix_id_of_def between_scene_def
      demo_aux_def dest!: three_cases)

lemma between_blend:
  assumes "x2 pixf = 0 \<or> x2 pixf = 1" "y2 pixf = 0"
  shows "power_of between_splat pixf = - 1" "G_of between_splat pixf = exp (- 1)"
    "alpha_of between_splat pixf = exp (- 1) / 2"
proof -
  show p: "power_of between_splat pixf = - 1"
    using assms by (auto simp add: power_of_def between_splat_def Let_def)
  show g: "G_of between_splat pixf = exp (- 1)" by (simp add: G_of_def p)
  have "exp (- 1) / 2 \<le> (99 / 100 :: real)" using exp_bounds(1) by linarith
  then show "alpha_of between_splat pixf = exp (- 1) / 2"
    unfolding alpha_of_def g by (simp add: between_splat_def min_absorb2)
qed

lemma between_lane_delta:
  "work_delta between_scene 3 between_splat (uint2 0 0)
     (load_pixel demo_aux between_scene 3 1 0 (uint2 0 0)) =
   \<lparr>Register_dL_dmean2D_x = - 9 * exp (- 1), Register_dL_dmean2D_y = 0,
    Register_dL_dconic2D_x = - (9 / 32) * exp (- 1), Register_dL_dconic2D_y = 0,
    Register_dL_dconic2D_w = 0, Register_dL_dopacity = 9 / 2 * exp (- 1),
    Register_dL_dcolors = (\<lambda>ch. if ch < 3 then 3 / 4 * exp (- 1) else 0),
    Register_dL_dinvdepths = 0\<rparr>"
  "work_delta between_scene 3 between_splat (uint2 1 0)
     (load_pixel demo_aux between_scene 3 1 1 (uint2 1 0)) =
   \<lparr>Register_dL_dmean2D_x = 3 * exp (- 1), Register_dL_dmean2D_y = 0,
    Register_dL_dconic2D_x = - (3 / 32) * exp (- 1), Register_dL_dconic2D_y = 0,
    Register_dL_dconic2D_w = 0, Register_dL_dopacity = 3 / 2 * exp (- 1),
    Register_dL_dcolors = (\<lambda>ch. if ch < 3 then 1 / 4 * exp (- 1) else 0),
    Register_dL_dinvdepths = 0\<rparr>"
proof -
  have c0: "pixel_centre (uint2 0 0) = float2 0 0" and c1: "pixel_centre (uint2 1 0) = float2 1 0"
    by (simp_all add: pixel_centre_def)
  have b0: "power_of between_splat (float2 0 0) = - 1"
    "G_of between_splat (float2 0 0) = exp (- 1)"
    "alpha_of between_splat (float2 0 0) = exp (- 1) / 2"
    by (rule between_blend; simp)+
  have b1: "power_of between_splat (float2 1 0) = - 1"
    "G_of between_splat (float2 1 0) = exp (- 1)"
    "alpha_of between_splat (float2 1 0) = exp (- 1) / 2"
    by (rule between_blend; simp)+
  have al: "\<not> exp (- 1) / 2 < (1 / 255 :: real)" using exp_bounds(2) by simp
  have "exp (- 1) / 2 < (1::real)" using exp_bounds(1) by linarith
  then have ne: "1 - exp (- 1) / 2 \<noteq> (0::real)" by linarith
  have lc0: "real_of_int (splat_idx_in_tile between_splat)
             < last_contributor (load_pixel demo_aux between_scene 3 1 0 (uint2 0 0))"
    and lc1: "real_of_int (splat_idx_in_tile between_splat)
             < last_contributor (load_pixel demo_aux between_scene 3 1 1 (uint2 1 0))"
    by (simp_all add: between_load_pixel between_splat_def)
  have pw0: "power_of between_splat (pixel_centre (uint2 0 0)) \<le> 0"
    and pw1: "power_of between_splat (pixel_centre (uint2 1 0)) \<le> 0"
    by (simp_all add: c0 c1 b0 b1)
  have al0: "\<not> alpha_of between_splat (pixel_centre (uint2 0 0)) < 1 / 255"
    and al1: "\<not> alpha_of between_splat (pixel_centre (uint2 1 0)) < 1 / 255"
    unfolding c0 c1 b0 b1 by (rule al)+
  note w0 = work_delta_composited [OF between_valid(1) lc0 pw0 al0, where C = 3]
  note w1 = work_delta_composited [OF between_valid(2) lc1 pw1 al1, where C = 3]
  show "work_delta between_scene 3 between_splat (uint2 0 0)
     (load_pixel demo_aux between_scene 3 1 0 (uint2 0 0)) =
   \<lparr>Register_dL_dmean2D_x = - 9 * exp (- 1), Register_dL_dmean2D_y = 0,
    Register_dL_dconic2D_x = - (9 / 32) * exp (- 1), Register_dL_dconic2D_y = 0,
    Register_dL_dconic2D_w = 0, Register_dL_dopacity = 9 / 2 * exp (- 1),
    Register_dL_dcolors = (\<lambda>ch. if ch < 3 then 3 / 4 * exp (- 1) else 0),
    Register_dL_dinvdepths = 0\<rparr>"
    using ne
    by (subst w0, simp add: Let_def work_dL_dalpha_def c0 b0 between_load_pixel sum_three
          fun_eq_iff)
       (simp add: between_splat_def between_scene_def)
  show "work_delta between_scene 3 between_splat (uint2 1 0)
     (load_pixel demo_aux between_scene 3 1 1 (uint2 1 0)) =
   \<lparr>Register_dL_dmean2D_x = 3 * exp (- 1), Register_dL_dmean2D_y = 0,
    Register_dL_dconic2D_x = - (3 / 32) * exp (- 1), Register_dL_dconic2D_y = 0,
    Register_dL_dconic2D_w = 0, Register_dL_dopacity = 3 / 2 * exp (- 1),
    Register_dL_dcolors = (\<lambda>ch. if ch < 3 then 1 / 4 * exp (- 1) else 0),
    Register_dL_dinvdepths = 0\<rparr>"
    using ne
    by (subst w1, simp add: Let_def work_dL_dalpha_def c1 b1 between_load_pixel sum_three
          fun_eq_iff)
       (simp add: between_splat_def between_scene_def)
qed

subsection \<open>The claims about the compositing kernel\<close>

text \<open>
  Claim C2, as amended. At every pixel sample of a valid pixel that is not past its
  last contributor, the exponent is minus one half of the quadratic form of the pixel
  offset against the conic, the footprint \<open>G\<close> is its exponential, alpha is
  \<open>min 0.99 (opacity * G)\<close> and the weight is alpha times the transmittance before the
  sample. The sample is skipped when the exponent is positive or alpha is below 1/255;
  every other sample is composited with that weight: the transmittance is multiplied
  by \<open>1 - alpha\<close>, and the weight times the colour, the inverse depth and the upstream
  gradients is added to the running sums and to the colour and depth accumulators.
\<close>

theorem do_work_blending:
  assumes "valid_pixel a pix" "real_of_int (splat_idx_in_tile s) < last_contributor p"
  shows "(let pixf = float2 (real (unat (ux pix))) (real (unat (uy pix)));
              dx = x2 (xy s) - x2 pixf;
              dy = y2 (xy s) - y2 pixf;
              power = power_of s pixf;
              G = G_of s pixf;
              alpha = alpha_of s pixf;
              weight = alpha * T p;
              (p', r') = do_work a C s pix (p, r)
          in power = - (1 / 2) * (x4 (con_o s) * dx * dx + 2 * y4 (con_o s) * dx * dy
                                   + z4 (con_o s) * dy * dy)
             \<and> G = exp power
             \<and> alpha = min (99 / 100) (w4 (con_o s) * G)
             \<and> (if power > 0 \<or> alpha < 1 / 255 then (p', r') = (p, r)
                 else T p' = T p * (1 - alpha)
                   \<and> ar p' = (\<lambda>ch. if ch < C then ar p ch + weight * c s ch else ar p ch)
                   \<and> ard p' = ard p + weight * invd s
                   \<and> Register_dL_dcolors r' =
                       (\<lambda>ch. if ch < C then Register_dL_dcolors r ch + weight * dL_dpixel p ch
                             else Register_dL_dcolors r ch)
                   \<and> Register_dL_dinvdepths r' =
                       Register_dL_dinvdepths r + weight * dL_invdepth p))"
proof -
  let ?pixf = "float2 (real (unat (ux pix))) (real (unat (uy pix)))"
  have pw: "power_of s ?pixf = - (1 / 2) * (x4 (con_o s) * (x2 (xy s) - x2 ?pixf) * (x2 (xy s) - x2 ?pixf)
      + 2 * y4 (con_o s) * (x2 (xy s) - x2 ?pixf) * (y2 (xy s) - y2 ?pixf)
      + z4 (con_o s) * (y2 (xy s) - y2 ?pixf) * (y2 (xy s) - y2 ?pixf))"
    by (simp add: power_of_def Let_def field_simps)
  have v: "\<not> (word_of_int (W a) \<le> ux pix \<or> word_of_int (H a) \<le> uy pix)"
    using assms(1) by (auto simp add: valid_pixel_def)
  have l: "\<not> real_of_int (splat_idx_in_tile s) \<ge> last_contributor p"
    using assms(2) by simp
  have rest: "(let alpha = alpha_of s ?pixf; weight = alpha * T p;
              (p', r') = do_work a C s pix (p, r)
          in (if power_of s ?pixf > 0 \<or> alpha < 1 / 255 then (p', r') = (p, r)
                 else T p' = T p * (1 - alpha)
                   \<and> ar p' = (\<lambda>ch. if ch < C then ar p ch + weight * c s ch else ar p ch)
                   \<and> ard p' = ard p + weight * invd s
                   \<and> Register_dL_dcolors r' =
                       (\<lambda>ch. if ch < C then Register_dL_dcolors r ch + weight * dL_dpixel p ch
                             else Register_dL_dcolors r ch)
                   \<and> Register_dL_dinvdepths r' =
                       Register_dL_dinvdepths r + weight * dL_invdepth p))"
    using v l by (simp add: do_work_def Let_def channel_fold split_beta)
  have g: "G_of s ?pixf = exp (power_of s ?pixf)" by (simp add: G_of_def)
  have al: "alpha_of s ?pixf = min (99 / 100) (w4 (con_o s) * G_of s ?pixf)"
    by (simp add: alpha_of_def)
  show ?thesis
    unfolding Let_def split_beta using pw g al rest [unfolded Let_def split_beta] by blast
qed

theorem do_work_blending_witness:
  "valid_pixel demo_scene (uint2 1 0)
   \<and> real_of_int (splat_idx_in_tile visible_splat) < last_contributor visible_pixel
   \<and> alpha_of visible_splat (float2 1 0) = 1 / 2
   \<and> T (fst (do_work demo_scene 3 visible_splat (uint2 1 0) (visible_pixel, zero_registers))) = 1 / 2
   \<and> Register_dL_dcolors
        (snd (do_work demo_scene 3 visible_splat (uint2 1 0) (visible_pixel, zero_registers))) 0
       = 1 / 2"
proof -
  have v: "valid_pixel demo_scene (uint2 1 0)"
    by (simp add: valid_pixel_def demo_scene_def)
  have l: "real_of_int (splat_idx_in_tile visible_splat) < last_contributor visible_pixel"
    by (simp add: visible_splat_def visible_pixel_def)
  have pf: "float2 (real (unat (ux (uint2 1 0)))) (real (unat (uy (uint2 1 0)))) = float2 1 0"
    by simp
  from do_work_blending [OF v l, of 3 zero_registers]
  have "T (fst (do_work demo_scene 3 visible_splat (uint2 1 0) (visible_pixel, zero_registers))) = 1 / 2
    \<and> Register_dL_dcolors
        (snd (do_work demo_scene 3 visible_splat (uint2 1 0) (visible_pixel, zero_registers))) 0
       = 1 / 2"
    unfolding Let_def split_beta pf visible_alpha visible_power
    by (simp add: visible_pixel_def zero_registers_def)
  then show ?thesis using v l visible_alpha by simp
qed

text \<open>
  Claim C2 as stated fails: it lets only samples with alpha below 1/255 be skipped. The
  kernel also skips a sample whose exponent is positive (line 595). For this primitive
  at pixel (0, 0) the exponent is 1/2, alpha is 0.99, the pixel is valid and the
  primitive is before the last contributor, compositing would add a nonzero weight,
  and the thread is left unchanged.
\<close>

theorem positive_power_skipped_counterexample:
  "valid_pixel demo_scene (uint2 0 0)
   \<and> real_of_int (splat_idx_in_tile inverted_splat) < last_contributor fresh_pixel
   \<and> \<not> alpha_of inverted_splat (float2 (real (unat (ux (uint2 0 0)))) (real (unat (uy (uint2 0 0))))) < 1 / 255
   \<and> alpha_of inverted_splat (float2 (real (unat (ux (uint2 0 0)))) (real (unat (uy (uint2 0 0)))))
        * T fresh_pixel * dL_dpixel fresh_pixel 0 \<noteq> 0
   \<and> do_work demo_scene 3 inverted_splat (uint2 0 0) (fresh_pixel, zero_registers)
       = (fresh_pixel, zero_registers)"
  by (simp add: inverted_alpha valid_pixel_def do_work_def Let_def inverted_power)
     (simp add: demo_scene_def inverted_splat_def fresh_pixel_def)

text \<open>
  Claim C3. A bucket whose first primitive index within its tile, 32 times the
  bucket's index in the tile, is at or beyond the tile's recorded maximum contributor
  count (so in particular when it exceeds it) is a no-op: the warp returns at line 504
  before any atomic addition and every gradient buffer is as before. The first two
  hypotheses say that the bucket index is one the kernel's \<^verbatim>\<open>int\<close> arithmetic can
  multiply by 32.
\<close>

theorem bucket_beyond_max_contrib_noop:
  assumes "0 \<le> bucket_idx_in_tile a g" "bucket_idx_in_tile a g * 32 < 2 ^ 31"
    "uint (max_contrib a (uint (tile_id_of a g))) \<le> bucket_idx_in_tile a g * 32"
  shows "PerGaussianRenderCUDA aux a C g junk b = b"
proof -
  have "uint (word_of_int (bucket_idx_in_tile a g * 32) :: 32 word) = bucket_idx_in_tile a g * 32"
    using assms(1,2) by (intro uint_word_of_int_32) simp_all
  then have "word_of_int (bucket_idx_in_tile a g * 32) \<ge> max_contrib a (uint (tile_id_of a g))"
    using assms(3) by (simp add: word_le_def)
  then show ?thesis by (simp add: PerGaussianRenderCUDA_def)
qed

theorem bucket_beyond_max_contrib_noop_witness:
  "0 \<le> bucket_idx_in_tile sparse_scene 1 \<and> bucket_idx_in_tile sparse_scene 1 * 32 < 2 ^ 31
   \<and> uint (max_contrib sparse_scene (uint (tile_id_of sparse_scene 1)))
        < bucket_idx_in_tile sparse_scene 1 * 32
   \<and> valid_splat (load_splat sparse_scene 3 1 0)
   \<and> PerGaussianRenderCUDA demo_aux sparse_scene 3 1 demo_junk demo_buffers = demo_buffers"
proof -
  have bi: "bucket_idx_in_tile sparse_scene 1 = 1"
    by (simp add: bucket_idx_in_tile_def bbm_of_def tile_id_of_def sparse_scene_def demo_scene_def)
  have m: "uint (max_contrib sparse_scene (uint (tile_id_of sparse_scene 1))) = 1"
    by (simp add: sparse_scene_def)
  have vs: "valid_splat (load_splat sparse_scene 3 1 0)"
    by (simp add: load_splat_def Let_def bi num_splats_in_tile_def)
       (simp add: sparse_scene_def demo_scene_def tile_id_of_def)
  have "PerGaussianRenderCUDA demo_aux sparse_scene 3 1 demo_junk demo_buffers = demo_buffers"
    by (rule bucket_beyond_max_contrib_noop) (simp_all add: bi m)
  then show ?thesis using vs by (simp add: bi m)
qed

text \<open>
  Claim C4. In pass \<open>i\<close> of the loop lane \<open>k\<close> works on pixel index \<open>i - k\<close>. When the
  lane's primitive has an index in the tile at or beyond the contributor count
  recorded for that pixel, the pass adds nothing to any accumulator of the lane. The
  witness shows the other half: in the scene above the visible primitive adds nothing
  at pixel (0, 0), where no primitive contributes, and adds 4 to its opacity
  accumulator at pixel (1, 0) in the next pass.
\<close>

theorem beyond_last_contributor_adds_nothing:
  assumes "valid_splat (load_splat a C g k)" "k \<le> i" "int i - int k < BLOCK_SIZE aux"
    "valid_pixel a (pix_of aux a (tile_id_of a g) (int i - int k))"
    "uint (n_contrib a (uint (pix_id_of a (pix_of aux a (tile_id_of a g) (int i - int k)))))
       \<le> splat_idx_in_tile (load_splat a C g k)"
  shows "snd (loop_upto aux a C g junk (Suc i) k) = snd (loop_upto aux a C g junk i k)"
proof -
  let ?idx = "int i - int k"
  let ?pix = "pix_of aux a (tile_id_of a g) ?idx"
  let ?p1 = "if k = 0 then load_pixel aux a C g ?idx ?pix
             else fst (loop_upto aux a C g junk i (k - 1))"
  have inp: "?p1 = bucket_scan aux a C g ?idx k"
    using assms(2,3,1,4) by (rule lane_input)
  have "last_contributor ?p1
        = real (unat (n_contrib a (uint (pix_id_of a ?pix))))"
    unfolding inp by (simp add: bucket_scan_keeps load_pixel_def Let_def)
  then have skip: "real_of_int (splat_idx_in_tile (load_splat a C g k)) \<ge> last_contributor ?p1"
    using unat_le_real [OF assms(5)] by simp
  have "do_work a C (load_splat a C g k) ?pix (?p1, snd (loop_upto aux a C g junk i k))
        = (?p1, snd (loop_upto aux a C g junk i k))"
    using skip by (rule do_work_skip_last)
  then show ?thesis using assms(1-4)
    by (cases "k = 0") (simp_all add: loop_upto_Suc iteration_def Let_def)
qed

theorem beyond_last_contributor_adds_nothing_witness:
  "valid_splat (load_splat demo_scene 3 1 0) \<and> (0::nat) \<le> 0
   \<and> int 0 - int 0 < BLOCK_SIZE demo_aux
   \<and> valid_pixel demo_scene (pix_of demo_aux demo_scene (tile_id_of demo_scene 1) (int 0 - int 0))
   \<and> uint (n_contrib demo_scene (uint (pix_id_of demo_scene
              (pix_of demo_aux demo_scene (tile_id_of demo_scene 1) (int 0 - int 0)))))
        \<le> splat_idx_in_tile (load_splat demo_scene 3 1 0)
   \<and> snd (loop_upto demo_aux demo_scene 3 1 demo_junk (Suc 0) 0)
       = snd (loop_upto demo_aux demo_scene 3 1 demo_junk 0 0)
   \<and> Register_dL_dopacity (snd (loop_upto demo_aux demo_scene 3 1 demo_junk 1 0)) = 0
   \<and> Register_dL_dopacity (snd (loop_upto demo_aux demo_scene 3 1 demo_junk 2 0)) = 4"
proof -
  have h1: "valid_splat (load_splat demo_scene 3 1 0)"
    by (simp add: demo_load_splat visible_splat_def)
  have h3: "int 0 - int 0 < BLOCK_SIZE demo_aux" by (simp add: demo_aux_def)
  have h4: "valid_pixel demo_scene
              (pix_of demo_aux demo_scene (tile_id_of demo_scene 1) (int 0 - int 0))"
    by (simp add: demo_tile_id demo_pix valid_pixel_def) (simp add: demo_scene_def)
  have h5: "uint (n_contrib demo_scene (uint (pix_id_of demo_scene
              (pix_of demo_aux demo_scene (tile_id_of demo_scene 1) (int 0 - int 0)))))
        \<le> splat_idx_in_tile (load_splat demo_scene 3 1 0)"
    by (simp add: demo_tile_id demo_pix demo_load_splat pix_id_of_def visible_splat_def)
       (simp add: demo_scene_def)
  have c: "snd (loop_upto demo_aux demo_scene 3 1 demo_junk (Suc 0) 0)
       = snd (loop_upto demo_aux demo_scene 3 1 demo_junk 0 0)"
    using h1 _ h3 h4 h5 by (rule beyond_last_contributor_adds_nothing) simp
  have bs: "nat (BLOCK_SIZE demo_aux) = 2" by (simp add: demo_aux_def)
  have r1: "Register_dL_dopacity (snd (loop_upto demo_aux demo_scene 3 1 demo_junk 1 0)) = 0"
    by (simp add: inv_regs h1 bs demo_lane0_total1 zero_registers_def)
  have r2: "Register_dL_dopacity (snd (loop_upto demo_aux demo_scene 3 1 demo_junk 2 0)) = 4"
    by (simp add: inv_regs h1 bs demo_lane0_total)
  show ?thesis using h1 h3 h4 h5 c r1 r2 by simp
qed

text \<open>
  Claim C10. The atomic additions of lane \<open>k\<close> add to the first two channels of its
  primitive's mean2D gradient the lane's accumulated sums over the pixels of the tile,
  and to the third and fourth channels the absolute values of these same two sums: the
  magnitude of the bucket's signed sum per axis, not a sum of magnitudes per step. The
  auxiliary channels therefore never decrease.
\<close>

theorem auxiliary_channels_add_magnitudes:
  assumes "k < 32" "valid_splat (load_splat a C g k)"
  shows "(let s = load_splat a C g k;
              r = snd (render_loop aux a C g junk k);
              m = dL_dmean2D b (gaussian_idx s);
              m' = dL_dmean2D (flush C s r b) (gaussian_idx s);
              sum_x = (\<Sum>idx<nat (BLOCK_SIZE aux).
                 if valid_pixel a (pix_of aux a (tile_id_of a g) (int idx))
                 then Register_dL_dmean2D_x (work_delta a C s
                        (pix_of aux a (tile_id_of a g) (int idx))
                        (bucket_scan aux a C g (int idx) k))
                 else 0);
              sum_y = (\<Sum>idx<nat (BLOCK_SIZE aux).
                 if valid_pixel a (pix_of aux a (tile_id_of a g) (int idx))
                 then Register_dL_dmean2D_y (work_delta a C s
                        (pix_of aux a (tile_id_of a g) (int idx))
                        (bucket_scan aux a C g (int idx) k))
                 else 0)
          in x4 m' = x4 m + sum_x \<and> y4 m' = y4 m + sum_y
             \<and> z4 m' = z4 m + \<bar>sum_x\<bar> \<and> w4 m' = w4 m + \<bar>sum_y\<bar>
             \<and> z4 m \<le> z4 m' \<and> w4 m \<le> w4 m')"
  unfolding Let_def
  using assms
  by (simp add: render_loop_regs flush_def Let_def lane_total_mean2D)

theorem auxiliary_channels_add_magnitudes_witness:
  "(0::nat) < 32 \<and> valid_splat (load_splat between_scene 3 1 0)
   \<and> Register_dL_dmean2D_x
        (work_delta between_scene 3 (load_splat between_scene 3 1 0)
           (pix_of demo_aux between_scene (tile_id_of between_scene 1) (int 0))
           (bucket_scan demo_aux between_scene 3 1 (int 0) 0)) = - 9 * exp (- 1)
   \<and> Register_dL_dmean2D_x
        (work_delta between_scene 3 (load_splat between_scene 3 1 0)
           (pix_of demo_aux between_scene (tile_id_of between_scene 1) (int 1))
           (bucket_scan demo_aux between_scene 3 1 (int 1) 0)) = 3 * exp (- 1)
   \<and> dL_dmean2D demo_buffers (gaussian_idx (load_splat between_scene 3 1 0)) = float4 0 0 0 0
   \<and> dL_dmean2D (flush 3 (load_splat between_scene 3 1 0)
                    (snd (render_loop demo_aux between_scene 3 1 demo_junk 0)) demo_buffers)
        (gaussian_idx (load_splat between_scene 3 1 0))
       = float4 (- 6 * exp (- 1)) 0 (6 * exp (- 1)) 0"
proof -
  have h0: "(0::nat) < 32" by simp
  have h1: "valid_splat (load_splat between_scene 3 1 0)"
    by (simp add: between_load_splat between_splat_def)
  have t0: "Register_dL_dmean2D_x
        (work_delta between_scene 3 (load_splat between_scene 3 1 0)
           (pix_of demo_aux between_scene (tile_id_of between_scene 1) (int 0))
           (bucket_scan demo_aux between_scene 3 1 (int 0) 0)) = - 9 * exp (- 1)"
    and u0: "Register_dL_dmean2D_y
        (work_delta between_scene 3 (load_splat between_scene 3 1 0)
           (pix_of demo_aux between_scene (tile_id_of between_scene 1) (int 0))
           (bucket_scan demo_aux between_scene 3 1 (int 0) 0)) = 0"
    and t1: "Register_dL_dmean2D_x
        (work_delta between_scene 3 (load_splat between_scene 3 1 0)
           (pix_of demo_aux between_scene (tile_id_of between_scene 1) (int 1))
           (bucket_scan demo_aux between_scene 3 1 (int 1) 0)) = 3 * exp (- 1)"
    and u1: "Register_dL_dmean2D_y
        (work_delta between_scene 3 (load_splat between_scene 3 1 0)
           (pix_of demo_aux between_scene (tile_id_of between_scene 1) (int 1))
           (bucket_scan demo_aux between_scene 3 1 (int 1) 0)) = 0"
    by (simp_all add: between_load_splat between_tile_id between_pix between_lane_delta)
  have g: "gaussian_idx (load_splat between_scene 3 1 0) = 1"
    by (simp add: between_load_splat between_splat_def)
  have m: "dL_dmean2D demo_buffers 1 = float4 0 0 0 0" by (simp add: demo_buffers_def)
  have bs: "nat (BLOCK_SIZE demo_aux) = Suc (Suc 0)" by (simp add: demo_aux_def)
  have v: "valid_pixel between_scene (pix_of demo_aux between_scene (tile_id_of between_scene 1) (int 0))"
    "valid_pixel between_scene (pix_of demo_aux between_scene (tile_id_of between_scene 1) (int 1))"
    by (simp_all add: between_tile_id between_pix between_valid)
  have e: "0 < exp (- 1 :: real)" by simp
  have s2: "(\<Sum>idx<Suc (Suc 0). f idx) = f 0 + f (Suc 0)" for f :: "nat \<Rightarrow> real" by simp
  from auxiliary_channels_add_magnitudes [OF h0 h1, of demo_aux demo_junk demo_buffers]
  have "dL_dmean2D (flush 3 (load_splat between_scene 3 1 0)
                    (snd (render_loop demo_aux between_scene 3 1 demo_junk 0)) demo_buffers) 1
       = float4 (- 6 * exp (- 1)) 0 (6 * exp (- 1)) 0"
    unfolding Let_def g m bs s2 of_nat_0 of_nat_Suc
    using e v t0 t1 u0 u1
    by (intro float4.expand) (simp del: bucket_scan.simps)
  then show ?thesis
    using h1 t0 t1 by (simp add: g m del: bucket_scan.simps)
qed


section \<open>The bucketed kernel against the reference of the spec\<close>

subsection \<open>The blending values of the kernel and the rule of the spec\<close>


subsection \<open>The running state of the kernel and front-to-back compositing\<close>








subsection \<open>The gradients\<close>










subsection \<open>The reference on the scene with a primitive between two pixels\<close>
























subsection \<open>The kernel and the reference on the two scenes of one pixel\<close>


































subsection \<open>The claim about the refinement\<close>




section \<open>Properties of CovarianceBackward and PreprocessBackward\<close>

subsection \<open>What a thread of \<^verbatim>\<open>computeCov2DCUDA\<close> stores\<close>

lemma store_floats_outside:
  "i < k \<or> k + int (length vs) \<le> i \<Longrightarrow> store_floats a k vs i = a i"
  by (induction vs arbitrary: a k) auto

lemma store_floats_read:
  "j < length vs \<Longrightarrow> store_floats a k vs (k + int j) = vs ! j"
proof (induction vs arbitrary: a k j)
  case Nil
  then show ?case by simp
next
  case (Cons v vs)
  show ?case
  proof (cases j)
    case 0
    then show ?thesis by (simp add: store_floats_outside)
  next
    case (Suc j')
    then have "store_floats (a(k := v)) (k + 1) vs (k + 1 + int j') = vs ! j'"
      using Cons.prems by (intro Cons.IH) simp
    then show ?thesis using Suc by (simp add: algebra_simps)
  qed
qed

lemma antialias_scale_reg:
  "fst (antialias_scale aa c_xx c_xy c_yy v opac) = c_xx + h_var"
  "fst (snd (antialias_scale aa c_xx c_xy c_yy v opac)) = c_yy + h_var"
  by (simp_all add: antialias_scale_def Let_def)

text \<open>
  The guarded reciprocal of line 251 is positive whatever the determinant, so the
  test of line 253 always succeeds in exact arithmetic and the six entries are those
  of lines 259 to 276.
\<close>

lemma denom2inv_pos: "0 < denom2inv_of d"
proof -
  have "0 \<le> d * d" by simp
  moreover have "(0::real) < 0.0000001" by simp
  ultimately have "0 < d * d + 0.0000001" by (rule add_nonneg_pos)
  then show ?thesis by (simp add: denom2inv_of_def)
qed

lemma conic_grads_general:
  "conic_grads c_xx c_xy c_yy dL_dconic T_m aa =
     (let denom = c_xx * c_yy - c_xy * c_xy;
          dc = conic_dc c_xx c_xy c_yy dL_dconic denom (denom2inv_of denom) aa
      in (dc, conic_entries T_m dc))"
  using denom2inv_pos [of "c_xx * c_yy - c_xy * c_xy"]
  by (simp add: conic_grads_def Let_def)

lemma conic_entries_length: "length (conic_entries T_m dc) = 6"
  by (cases dc) (simp add: conic_entries_def)

lemma cov2D_thread_entries_length:
  "length (fst (snd (cov2D_thread aux idx means cov3Ds h_x h_y tan_fovx tan_fovy view_matrix
      opacities dL_dconics dL_dinvdepth antialiasing v))) = 6"
  by (simp add: cov2D_thread_def Let_def split_beta conic_grads_general conic_entries_length)

lemma computeCov2DCUDA_dL_dcov:
  assumes "int idx < P mod 2 ^ 64" "radii (int idx) > 0" "k < 6"
  shows "dL_dcov (computeCov2DCUDA aux idx P means radii cov3Ds h_x h_y tan_fovx tan_fovy
           view_matrix opacities dL_dconics dL_dinvdepth antialiasing b) (6 * int idx + int k)
         = fst (snd (cov2D_thread aux (int idx) means cov3Ds h_x h_y tan_fovx tan_fovy view_matrix
             opacities dL_dconics dL_dinvdepth antialiasing (dL_dopacity b (int idx)))) ! k"
  using assms
  by (simp add: computeCov2DCUDA_def split_beta store_floats_read cov2D_thread_entries_length)

lemma cov2D_thread_entries:
  "fst (snd (cov2D_thread aux idx means cov3Ds h_x h_y tan_fovx tan_fovy view_matrix
      opacities dL_dconics dL_dinvdepth antialiasing v)) =
   (let cov = cov2D_at aux idx means cov3Ds h_x h_y tan_fovx tan_fovy view_matrix;
        c_xx = cov 0 0 + h_var; c_xy = cov 0 1; c_yy = cov 1 1 + h_var;
        denom = c_xx * c_yy - c_xy * c_xy;
        d_inside_root = snd (snd (snd (antialias_scale antialiasing (cov 0 0) (cov 0 1) (cov 1 1)
                          v (opacities idx))))
    in conic_entries
         (cov2D_T h_x h_y (fst (cov2D_t aux idx means tan_fovx tan_fovy view_matrix)) view_matrix)
         (conic_dc c_xx c_xy c_yy
            (float3 (dL_dconics (4 * idx)) (dL_dconics (4 * idx + 1)) (dL_dconics (4 * idx + 3)))
            denom (denom2inv_of denom)
            (antialias_grads antialiasing c_xx c_xy c_yy d_inside_root)))"
  by (simp add: cov2D_thread_def Let_def split_beta conic_grads_general antialias_scale_reg)

subsection \<open>The primitive on the optical axis\<close>

lemma demo_t:
  "cov2D_t demo_aux 0 demo_means 1 1 identity4 = (float3 0 0 1, 1, 1)"
  by (simp add: cov2D_t_def ray_clamp_def demo_aux_def demo_means_def identity4_def Let_def)

lemma demo_T:
  "cov2D_T 1 1 (float3 0 0 1) identity4 = mat3 1 0 0 0 1 0 0 0 0"
  by (simp add: cov2D_T_def cov2D_W_def cov2D_J_def glm_mul_def mat3_def identity4_def fun_eq_iff)

lemma demo_cov2D:
  "cov2D_at demo_aux 0 demo_means cov3Ds 1 1 1 1 identity4 0 0 = cov3Ds 0"
  "cov2D_at demo_aux 0 demo_means cov3Ds 1 1 1 1 identity4 0 (Suc 0) = cov3Ds 1"
  "cov2D_at demo_aux 0 demo_means cov3Ds 1 1 1 1 identity4 (Suc 0) (Suc 0) = cov3Ds 3"
  by (simp_all add: cov2D_at_def demo_t demo_T cov2D_of_def cov2D_Vrk_def glm_mul_def
      glm_transpose_def mat3_def)

lemma round_cov2D:
  "cov2D_at demo_aux 0 demo_means (round_cov3Ds(0 := v)) 1 1 1 1 identity4 0 0 = v"
  "cov2D_at demo_aux 0 demo_means (round_cov3Ds(0 := v)) 1 1 1 1 identity4 0 (Suc 0) = 0"
  "cov2D_at demo_aux 0 demo_means (round_cov3Ds(0 := v)) 1 1 1 1 identity4 (Suc 0) (Suc 0) = 3/10"
  "cov2D_at demo_aux 0 demo_means round_cov3Ds 1 1 1 1 identity4 0 0 = 3/10"
  "cov2D_at demo_aux 0 demo_means round_cov3Ds 1 1 1 1 identity4 0 (Suc 0) = 0"
  "cov2D_at demo_aux 0 demo_means round_cov3Ds 1 1 1 1 identity4 (Suc 0) (Suc 0) = 3/10"
  by (simp_all add: demo_cov2D round_cov3Ds_def)

subsection \<open>The anti-aliasing path\<close>

text \<open>
  Without anti-aliasing the kernel adds \<open>h_var = 0.3\<close> to both diagonal entries and
  leaves the opacity gradient as it is. With anti-aliasing the stored opacity gradient
  is multiplied by the square root of the clamped ratio of determinants, and the
  anti-aliasing part of the covariance gradients is zero when the ratio is at or below
  the clamp.
\<close>

lemma antialias_disabled:
  "antialias_scale False c_xx c_xy c_yy v opac = (c_xx + 3/10, c_yy + 3/10, v, 0)"
  by (simp add: antialias_scale_def h_var_def)

lemma computeCov2DCUDA_opacity_unscaled:
  "dL_dopacity (computeCov2DCUDA aux idx P means radii cov3Ds h_x h_y tan_fovx tan_fovy
      view_matrix opacities dL_dconics dL_dinvdepth False b) = dL_dopacity b"
  by (simp add: computeCov2DCUDA_def split_beta)

lemma antialias_enabled_opacity:
  "fst (snd (snd (antialias_scale True c_xx c_xy c_yy v opac)))
   = v * sqrt (max 0.000025
       ((c_xx * c_yy - c_xy * c_xy) / ((c_xx + 3/10) * (c_yy + 3/10) - c_xy * c_xy)))"
  by (simp add: antialias_scale_def h_convolution_scaling_def h_var_def Let_def)

lemma antialias_grads_below_threshold:
  assumes "(c_xx * c_yy - c_xy * c_xy) / ((c_xx + 3/10) * (c_yy + 3/10) - c_xy * c_xy) \<le> 0.000025"
  shows "antialias_grads True (c_xx + 3/10) c_xy (c_yy + 3/10)
           (snd (snd (snd (antialias_scale True c_xx c_xy c_yy v opac)))) = (0, 0, 0)"
  using assms by (simp add: antialias_scale_def antialias_grads_def h_var_def Let_def)

text \<open>
  The scaling factor as a function of the first entry of the 3D covariance, around the
  round primitive: there the ratio of determinants is 1/4, above the clamp, the factor
  is 1/2 and its derivative is 5/12.
\<close>

lemma sqrt_quarter: "sqrt (1/4) = 1/2"
  by (rule real_sqrt_unique) (simp_all add: power2_eq_square)

lemma round_ratio_deriv:
  "((\<lambda>v::real. v * (3/10) / ((v + 3/10) * (3/10 + 3/10)) ) has_real_derivative 5/12) (at (3/10))"
  by (auto intro!: derivative_eq_intros simp: field_simps)

lemma round_sqrt_deriv:
  "((\<lambda>v::real. sqrt (v * (3/10) / ((v + 3/10) * (3/10 + 3/10)))) has_real_derivative 5/12)
     (at (3/10))"
proof -
  have "(sqrt has_real_derivative inverse (sqrt (1/4)) / 2) (at (1/4))"
    by (rule DERIV_real_sqrt) simp
  then have "(sqrt has_real_derivative 1)
     (at ((3/10::real) * (3/10) / ((3/10 + 3/10) * (3/10 + 3/10))))"
    by (simp add: sqrt_quarter)
  from DERIV_chain' [OF round_ratio_deriv this] show ?thesis by simp
qed

lemma round_scaling_deriv:
  "((\<lambda>v. h_convolution_scaling v 0 (3/10)) has_real_derivative 5/12) (at (3/10))"
proof -
  have ev: "\<forall>\<^sub>F v in nhds (3/10::real).
      sqrt (v * (3/10) / ((v + 3/10) * (3/10 + 3/10))) = h_convolution_scaling v 0 (3/10)"
  proof -
    have "\<forall>\<^sub>F v in nhds (3/10::real). v \<in> {1/10<..<1}"
      by (intro eventually_nhds_in_open) auto
    then show ?thesis
    proof (eventually_elim)
      case (elim v)
      then have "1/40000 \<le> v * (3/10) / ((v + 3/10) * (3/10 + 3/10))"
        by (simp add: field_simps)
      then show ?case
        unfolding h_convolution_scaling_def h_var_def Let_def by (simp add: max_absorb2)
    qed
  qed
  show ?thesis
    by (rule DERIV_cong_ev [THEN iffD1, OF refl ev refl, OF round_sqrt_deriv])
qed

lemma round_d_inside_root:
  "antialias_scale True (3/10) 0 (3/10) 1 1 = (3/5, 3/5, 1/2, 1)"
proof -
  have "h_convolution_scaling (3/10) 0 (3/10) = 1/2"
    unfolding h_convolution_scaling_def h_var_def Let_def
    using sqrt_quarter by (simp add: max_absorb2)
  then show ?thesis
    unfolding antialias_scale_def h_var_def Let_def by simp
qed

text \<open>
  Claim C5, at the round primitive with anti-aliasing enabled, opacity 1, an upstream
  opacity gradient of 1 and no conic gradient. The claim holds for the opacity
  gradient, which the kernel multiplies by the scaling factor 1/2. It asks for the
  derivative of the scaling factor in the covariance-entry gradients; the scaling
  factor, as a function of the entry \<^verbatim>\<open>cov3D[0]\<close> that becomes \<open>c_xx\<close>, has derivative
  5/12 there, so that is the gradient the upstream value 1 should leave in
  \<^verbatim>\<open>dL_dcov[0]\<close>. The kernel stores 20/81: lines 237 and 238 read \<open>c_xx\<close> and \<open>c_yy\<close>
  after lines 215 and 216 added \<open>h_var\<close> to them, whereas the formula of lines 241 to
  244 (the derivative the comment of lines 235 and 236 refers to) is in the entries
  before the regularisation: at the entries 0.3 it gives 5/12, at the regularised
  entries 0.6 it gives 20/81.
\<close>

theorem antialias_gradient_not_the_derivative:
  "((\<lambda>v. h_convolution_scaling
            (cov2D_at demo_aux 0 demo_means (round_cov3Ds(0 := v)) 1 1 1 1 identity4 0 0)
            (cov2D_at demo_aux 0 demo_means (round_cov3Ds(0 := v)) 1 1 1 1 identity4 0 1)
            (cov2D_at demo_aux 0 demo_means (round_cov3Ds(0 := v)) 1 1 1 1 identity4 1 1))
      has_real_derivative 5/12) (at (round_cov3Ds 0))
   \<and> dL_dcov (computeCov2DCUDA demo_aux 0 1 demo_means (\<lambda>i. 1) round_cov3Ds 1 1 1 1 identity4
                (\<lambda>i. 1) (\<lambda>k. 0) (\<lambda>i. 0) True (demo_buffers\<lparr>dL_dopacity := \<lambda>i. 1\<rparr>)) 0
      = 20/81
   \<and> dL_dopacity (computeCov2DCUDA demo_aux 0 1 demo_means (\<lambda>i. 1) round_cov3Ds 1 1 1 1 identity4
                (\<lambda>i. 1) (\<lambda>k. 0) (\<lambda>i. 0) True (demo_buffers\<lparr>dL_dopacity := \<lambda>i. 1\<rparr>)) 0
      = 1/2
   \<and> fst (antialias_grads True (3/10) 0 (3/10) 1) = 5/12
   \<and> fst (antialias_grads True (3/10 + h_var) 0 (3/10 + h_var) 1) = 20/81"
proof -
  have a: "round_cov3Ds 0 = 3/10" by (simp add: round_cov3Ds_def)
  have f: "fst (antialias_grads True (3/10) 0 (3/10) 1) = 5/12"
    "fst (antialias_grads True (3/10 + h_var) 0 (3/10 + h_var) 1) = 20/81"
    by (simp_all add: antialias_grads_def h_var_def sq_def Let_def)
  have d: "((\<lambda>v. h_convolution_scaling
            (cov2D_at demo_aux 0 demo_means (round_cov3Ds(0 := v)) 1 1 1 1 identity4 0 0)
            (cov2D_at demo_aux 0 demo_means (round_cov3Ds(0 := v)) 1 1 1 1 identity4 0 1)
            (cov2D_at demo_aux 0 demo_means (round_cov3Ds(0 := v)) 1 1 1 1 identity4 1 1))
      has_real_derivative 5/12) (at (round_cov3Ds 0))"
    using round_scaling_deriv by (simp add: round_cov2D a)
  have e: "dL_dcov (computeCov2DCUDA demo_aux 0 1 demo_means (\<lambda>i. 1) round_cov3Ds 1 1 1 1 identity4
                (\<lambda>i. 1) (\<lambda>k. 0) (\<lambda>i. 0) True (demo_buffers\<lparr>dL_dopacity := \<lambda>i. 1\<rparr>))
          (6 * int 0 + int 0) = 20/81"
    by (subst computeCov2DCUDA_dL_dcov)
       (simp_all add: cov2D_thread_entries Let_def round_cov2D round_d_inside_root demo_t demo_T
          conic_entries_def conic_dc_def antialias_grads_def denom2inv_of_def mat3_def h_var_def
          sq_def)
  have o: "dL_dopacity (computeCov2DCUDA demo_aux 0 1 demo_means (\<lambda>i. 1) round_cov3Ds 1 1 1 1
                identity4 (\<lambda>i. 1) (\<lambda>k. 0) (\<lambda>i. 0) True (demo_buffers\<lparr>dL_dopacity := \<lambda>i. 1\<rparr>)) 0
      = 1/2"
    by (simp add: computeCov2DCUDA_def cov2D_thread_def Let_def split_beta round_cov2D
        round_d_inside_root)
  from d e o f show ?thesis by simp
qed

subsection \<open>A singular regularised covariance\<close>

text \<open>
  Claim C6, as amended. The denominator of line 251 is the squared determinant plus
  \<open>0.0000001\<close>. For a primitive past the guard of line 165 whose regularised 2D
  covariance has determinant zero, the reciprocal is \<open>10000000\<close>, and the six entries
  written to \<^verbatim>\<open>dL_dcov\<close> are those of the general formulas of lines 259 to 276 with
  that factor.
\<close>

theorem singular_covariance_gradient:
  assumes "int idx < P mod 2 ^ 64" "radii (int idx) > 0"
    and "(cov2D_at aux (int idx) means cov3Ds h_x h_y tan_fovx tan_fovy view_matrix 0 0 + h_var)
          * (cov2D_at aux (int idx) means cov3Ds h_x h_y tan_fovx tan_fovy view_matrix 1 1 + h_var)
          - cov2D_at aux (int idx) means cov3Ds h_x h_y tan_fovx tan_fovy view_matrix 0 1
            * cov2D_at aux (int idx) means cov3Ds h_x h_y tan_fovx tan_fovy view_matrix 0 1 = 0"
  shows "(let cov = cov2D_at aux (int idx) means cov3Ds h_x h_y tan_fovx tan_fovy view_matrix;
              c_xx = cov 0 0 + h_var; c_xy = cov 0 1; c_yy = cov 1 1 + h_var;
              d_inside_root = snd (snd (snd (antialias_scale antialiasing (cov 0 0) (cov 0 1)
                                (cov 1 1) (dL_dopacity b (int idx)) (opacities (int idx)))));
              b' = computeCov2DCUDA aux idx P means radii cov3Ds h_x h_y tan_fovx tan_fovy
                     view_matrix opacities dL_dconics dL_dinvdepth antialiasing b
          in denom2inv_of 0 = 10000000
             \<and> map (\<lambda>k. dL_dcov b' (6 * int idx + int k)) [0..<6]
                 = conic_entries
                     (cov2D_T h_x h_y
                        (fst (cov2D_t aux (int idx) means tan_fovx tan_fovy view_matrix))
                        view_matrix)
                     (conic_dc c_xx c_xy c_yy
                        (float3 (dL_dconics (4 * int idx)) (dL_dconics (4 * int idx + 1))
                           (dL_dconics (4 * int idx + 3)))
                        0 10000000
                        (antialias_grads antialiasing c_xx c_xy c_yy d_inside_root)))"
proof -
  have d: "denom2inv_of 0 = 10000000" by (simp add: denom2inv_of_def)
  have "map (\<lambda>k. dL_dcov (computeCov2DCUDA aux idx P means radii cov3Ds h_x h_y tan_fovx tan_fovy
                     view_matrix opacities dL_dconics dL_dinvdepth antialiasing b)
                 (6 * int idx + int k)) [0..<6]
        = map (\<lambda>k. fst (snd (cov2D_thread aux (int idx) means cov3Ds h_x h_y tan_fovx tan_fovy
             view_matrix opacities dL_dconics dL_dinvdepth antialiasing
             (dL_dopacity b (int idx)))) ! k) [0..<6]"
    by (rule map_cong [OF refl])
       (simp add: computeCov2DCUDA_dL_dcov [where radii = radii and idx = idx, OF assms(1,2)])
  also have "\<dots> = fst (snd (cov2D_thread aux (int idx) means cov3Ds h_x h_y tan_fovx tan_fovy
             view_matrix opacities dL_dconics dL_dinvdepth antialiasing
             (dL_dopacity b (int idx))))"
    using map_nth [of "fst (snd (cov2D_thread aux (int idx) means cov3Ds h_x h_y tan_fovx tan_fovy
             view_matrix opacities dL_dconics dL_dinvdepth antialiasing
             (dL_dopacity b (int idx))))"]
    by (simp add: cov2D_thread_entries_length)
  finally show ?thesis
    unfolding Let_def using d assms(3) by (simp add: cov2D_thread_entries Let_def)
qed

lemma singular_cov2D:
  "cov2D_at demo_aux 0 demo_means singular_cov3Ds 1 1 1 1 identity4 0 0 + h_var = 1"
  "cov2D_at demo_aux 0 demo_means singular_cov3Ds 1 1 1 1 identity4 0 (Suc 0) = 1"
  "cov2D_at demo_aux 0 demo_means singular_cov3Ds 1 1 1 1 identity4 (Suc 0) (Suc 0) + h_var = 1"
  by (simp_all add: demo_cov2D singular_cov3Ds_def h_var_def)

theorem singular_covariance_gradient_witness:
  "int 0 < 1 mod 2 ^ 64 \<and> (0::int) < 1
   \<and> (cov2D_at demo_aux (int 0) demo_means singular_cov3Ds 1 1 1 1 identity4 0 0 + h_var)
     * (cov2D_at demo_aux (int 0) demo_means singular_cov3Ds 1 1 1 1 identity4 1 1 + h_var)
     - cov2D_at demo_aux (int 0) demo_means singular_cov3Ds 1 1 1 1 identity4 0 1
       * cov2D_at demo_aux (int 0) demo_means singular_cov3Ds 1 1 1 1 identity4 0 1 = 0
   \<and> map (\<lambda>k. dL_dcov (computeCov2DCUDA demo_aux 0 1 demo_means (\<lambda>i. 1) singular_cov3Ds 1 1 1 1
                 identity4 (\<lambda>i. 1) (\<lambda>k. if k = 0 then 1 else 0) (\<lambda>i. 0) False demo_buffers)
               (6 * int 0 + int k)) [0..<6]
      = [- 10000000, 20000000, 0, - 10000000, 0, 0]"
proof -
  have h1: "int 0 < 1 mod 2 ^ 64" by simp
  have h2: "(\<lambda>i::int. 1::int) (int 0) > 0" by simp
  have h3: "(cov2D_at demo_aux (int 0) demo_means singular_cov3Ds 1 1 1 1 identity4 0 0 + h_var)
     * (cov2D_at demo_aux (int 0) demo_means singular_cov3Ds 1 1 1 1 identity4 1 1 + h_var)
     - cov2D_at demo_aux (int 0) demo_means singular_cov3Ds 1 1 1 1 identity4 0 1
       * cov2D_at demo_aux (int 0) demo_means singular_cov3Ds 1 1 1 1 identity4 0 1 = 0"
    by (simp add: singular_cov2D)
  from singular_covariance_gradient [where dL_dconics = "\<lambda>k. if k = 0 then 1 else 0"
      and antialiasing = False and b = demo_buffers and opacities = "\<lambda>i. 1"
      and dL_dinvdepth = "\<lambda>i. 0", OF h1 h2 h3]
  have "map (\<lambda>k. dL_dcov (computeCov2DCUDA demo_aux 0 1 demo_means (\<lambda>i. 1) singular_cov3Ds 1 1 1 1
                 identity4 (\<lambda>i. 1) (\<lambda>k. if k = 0 then 1 else 0) (\<lambda>i. 0) False demo_buffers)
               (6 * int 0 + int k)) [0..<6]
      = [- 10000000, 20000000, 0, - 10000000, 0, 0]"
    unfolding Let_def
    by (simp add: singular_cov2D demo_t demo_T conic_entries_def conic_dc_def antialias_grads_def
        mat3_def)
  then show ?thesis using h1 h3 by simp
qed

text \<open>
  Claim C6 as stated fails: a singular regularised covariance does not give six zero
  entries. For the primitive with \<open>singular_cov3Ds\<close> the regularised covariance has
  determinant 0, and with a conic gradient of \<open>(1, 0, 0)\<close> the kernel stores
  \<open>- 10000000\<close> in \<^verbatim>\<open>dL_dcov[0]\<close>.
\<close>

theorem singular_covariance_nonzero_counterexample:
  "(cov2D_at demo_aux 0 demo_means singular_cov3Ds 1 1 1 1 identity4 0 0 + h_var)
     * (cov2D_at demo_aux 0 demo_means singular_cov3Ds 1 1 1 1 identity4 1 1 + h_var)
     - cov2D_at demo_aux 0 demo_means singular_cov3Ds 1 1 1 1 identity4 0 1
       * cov2D_at demo_aux 0 demo_means singular_cov3Ds 1 1 1 1 identity4 0 1 = 0
   \<and> int 0 < 1 mod 2 ^ 64 \<and> (0::int) < 1
   \<and> dL_dcov (computeCov2DCUDA demo_aux 0 1 demo_means (\<lambda>i. 1) singular_cov3Ds 1 1 1 1 identity4
                (\<lambda>i. 1) (\<lambda>k. if k = 0 then 1 else 0) (\<lambda>i. 0) False demo_buffers) 0
      = - 10000000"
proof -
  have "dL_dcov (computeCov2DCUDA demo_aux 0 1 demo_means (\<lambda>i. 1) singular_cov3Ds 1 1 1 1 identity4
                (\<lambda>i. 1) (\<lambda>k. if k = 0 then 1 else 0) (\<lambda>i. 0) False demo_buffers)
          (6 * int 0 + int 0) = - 10000000"
    by (subst computeCov2DCUDA_dL_dcov)
       (simp_all add: cov2D_thread_entries Let_def singular_cov2D demo_t demo_T conic_entries_def
          conic_dc_def antialias_grads_def denom2inv_of_def mat3_def)
  then show ?thesis by (simp add: singular_cov2D)
qed

subsection \<open>The 3D-mean gradient through the two kernels\<close>

lemma launch_split:
  assumes "idx < n"
  shows "launch thread n b
         = fold thread [Suc idx..<n] (thread idx (fold thread [0..<idx] b))"
proof -
  define d where "d = n - Suc idx"
  have n: "n = idx + Suc d"
    using assms by (simp add: d_def)
  have e1: "[0..<idx + Suc d] = [0..<idx] @ [idx..<idx + Suc d]"
    using upt_add_eq_append [of 0 idx "Suc d"] by (simp only: le0 add_0)
  have e2: "[idx..<idx + Suc d] = idx # [Suc idx..<idx + Suc d]"
    by (rule upt_conv_Cons) simp
  show ?thesis
    unfolding n launch_def e1 e2 by (simp only: fold_append fold_simps comp_apply)
qed

lemma computeCov2DCUDA_other:
  assumes "j \<noteq> idx"
  shows "dL_dmeans (computeCov2DCUDA aux j P means radii cov3Ds h_x h_y tan_fovx tan_fovy
           view_matrix opacities dL_dconics dL_dinvdepth antialiasing b) (int idx)
         = dL_dmeans b (int idx)"
    and "dL_dopacity (computeCov2DCUDA aux j P means radii cov3Ds h_x h_y tan_fovx tan_fovy
           view_matrix opacities dL_dconics dL_dinvdepth antialiasing b) (int idx)
         = dL_dopacity b (int idx)"
  using assms by (simp_all add: computeCov2DCUDA_def split_beta)

lemma computeCov2DCUDA_dL_dmeans:
  assumes "int idx < P mod 2 ^ 64" "radii (int idx) > 0"
  shows "dL_dmeans (computeCov2DCUDA aux idx P means radii cov3Ds h_x h_y tan_fovx tan_fovy
           view_matrix opacities dL_dconics dL_dinvdepth antialiasing b) (int idx)
         = snd (snd (cov2D_thread aux (int idx) means cov3Ds h_x h_y tan_fovx tan_fovy
             view_matrix opacities dL_dconics dL_dinvdepth antialiasing
             (dL_dopacity b (int idx))))"
  using assms by (simp add: computeCov2DCUDA_def split_beta)

lemma launch_computeCov2DCUDA_dL_dmeans:
  assumes "idx < n" "int idx < P mod 2 ^ 64" "radii (int idx) > 0"
  shows "dL_dmeans (launch (\<lambda>j. computeCov2DCUDA aux j P means radii cov3Ds h_x h_y tan_fovx
           tan_fovy view_matrix opacities dL_dconics dL_dinvdepth antialiasing) n b) (int idx)
         = snd (snd (cov2D_thread aux (int idx) means cov3Ds h_x h_y tan_fovx tan_fovy
             view_matrix opacities dL_dconics dL_dinvdepth antialiasing
             (dL_dopacity b (int idx))))"
proof -
  let ?thread = "\<lambda>j. computeCov2DCUDA aux j P means radii cov3Ds h_x h_y tan_fovx
           tan_fovy view_matrix opacities dL_dconics dL_dinvdepth antialiasing"
  have before: "dL_dopacity (fold ?thread [0..<idx] b) (int idx) = dL_dopacity b (int idx)"
    by (rule fold_keeps [where f = "\<lambda>b. dL_dopacity b (int idx)"])
       (simp add: computeCov2DCUDA_other)
  have after: "dL_dmeans (fold ?thread [Suc idx..<n] c) (int idx) = dL_dmeans c (int idx)" for c
    by (rule fold_keeps [where f = "\<lambda>b. dL_dmeans b (int idx)"])
       (simp add: computeCov2DCUDA_other)
  show ?thesis
    unfolding launch_split [OF assms(1)] after
    by (simp only: computeCov2DCUDA_dL_dmeans [where radii = radii, OF assms(2,3)] before)
qed

lemma preprocessCUDA_other:
  assumes "j \<noteq> idx"
  shows "dL_dmeans (preprocessCUDA aux j P D M means radii dc shs clamped scales rotations
           scale_modifier proj campos dL_dmean2D' dL_dcolor b) (int idx)
         = dL_dmeans b (int idx)"
  using assms
  by (simp add: preprocessCUDA_def computeColorFromSH_def computeCov3D_def Let_def split_beta
      split: option.splits)

lemma preprocessCUDA_dL_dmeans:
  assumes "int idx < P mod 2 ^ 64" "radii (int idx) > 0"
  shows "dL_dmeans (preprocessCUDA aux idx P D M means radii dc shs clamped scales rotations
           scale_modifier proj campos dL_dmean2D' dL_dcolor b) (int idx)
         = dL_dmeans b (int idx) + proj_dL_dmean aux (means (int idx)) proj (dL_dmean2D' (int idx))
           + (case shs of
                None \<Rightarrow> 0
              | Some shs' \<Rightarrow> snd (snd (sh_thread aux (int idx) D M means campos shs' clamped
                                         (vec3_at dL_dcolor))))"
  using assms
  by (simp add: preprocessCUDA_def computeColorFromSH_def computeCov3D_def Let_def split_beta
      split: option.splits)

lemma launch_preprocessCUDA_dL_dmeans:
  assumes "idx < n" "int idx < P mod 2 ^ 64" "radii (int idx) > 0"
  shows "dL_dmeans (launch (\<lambda>j. preprocessCUDA aux j P D M means radii dc shs clamped scales
           rotations scale_modifier proj campos dL_dmean2D' dL_dcolor) n b) (int idx)
         = dL_dmeans b (int idx) + proj_dL_dmean aux (means (int idx)) proj (dL_dmean2D' (int idx))
           + (case shs of
                None \<Rightarrow> 0
              | Some shs' \<Rightarrow> snd (snd (sh_thread aux (int idx) D M means campos shs' clamped
                                         (vec3_at dL_dcolor))))"
proof -
  let ?thread = "\<lambda>j. preprocessCUDA aux j P D M means radii dc shs clamped scales
           rotations scale_modifier proj campos dL_dmean2D' dL_dcolor"
  have before: "dL_dmeans (fold ?thread [0..<idx] b) (int idx) = dL_dmeans b (int idx)"
    by (rule fold_keeps [where f = "\<lambda>b. dL_dmeans b (int idx)"])
       (simp add: preprocessCUDA_other)
  have after: "dL_dmeans (fold ?thread [Suc idx..<n] c) (int idx) = dL_dmeans c (int idx)" for c
    by (rule fold_keeps [where f = "\<lambda>b. dL_dmeans b (int idx)"])
       (simp add: preprocessCUDA_other)
  show ?thesis
    unfolding launch_split [OF assms(1)] after
    by (simp only: preprocessCUDA_dL_dmeans [where radii = radii, OF assms(2,3)] before)
qed

lemma grid_threads_covers:
  assumes "0 \<le> P" "P + 255 < 2 ^ 31" "int idx < P"
  shows "idx < grid_threads P"
proof -
  have "(P + 255) sdiv 256 = (P + 255) div 256"
    using assms(1) by (simp add: signed_divide_int_def sgn_if)
  moreover have "P \<le> (P + 255) div 256 * 256" by linarith
  ultimately show ?thesis using assms(3) by (simp add: grid_threads_def)
qed

text \<open>
  Claim C7. For every primitive \<open>idx\<close> below \<open>P\<close> with a positive radius, the entry of
  the 3D-mean gradient buffer after \<^verbatim>\<open>BACKWARD::preprocess\<close> is the sum of the value
  that \<^verbatim>\<open>computeCov2DCUDA\<close> assigns (the projection and inverse-depth component), the
  value that \<^verbatim>\<open>preprocessCUDA\<close> adds for the screen-space mean gradient, and, when
  \<^verbatim>\<open>shs\<close> is not null, the value that \<^verbatim>\<open>computeColorFromSH\<close> adds. Hence the entry
  does not depend on what the buffer held before. The first hypothesis says that the
  grid size \<^verbatim>\<open>(P + 255) / 256\<close> is within \<^verbatim>\<open>int\<close>.
\<close>

theorem mean_gradient_overwrite_then_accumulate:
  assumes "P + 255 < 2 ^ 31" "int idx < P" "radii (int idx) > 0"
  shows "dL_dmeans (BACKWARD_preprocess aux P D M means3D radii dc shs clamped opacities scales
             rotations scale_modifier cov3Ds viewmatrix projmatrix focal_x focal_y tan_fovx
             tan_fovy campos dL_dmean2D' dL_dconic dL_dinvdepth dL_dcolor antialiasing b)
           (int idx)
         = snd (snd (cov2D_thread aux (int idx) means3D cov3Ds focal_x focal_y tan_fovx tan_fovy
                  viewmatrix opacities dL_dconic dL_dinvdepth antialiasing
                  (dL_dopacity b (int idx))))
           + proj_dL_dmean aux (means3D (int idx)) projmatrix (dL_dmean2D' (int idx))
           + (case shs of
                None \<Rightarrow> 0
              | Some shs' \<Rightarrow> snd (snd (sh_thread aux (int idx) D M means3D campos shs' clamped
                                         (vec3_at dL_dcolor))))
       \<and> (\<forall>prior.
            dL_dmeans (BACKWARD_preprocess aux P D M means3D radii dc shs clamped opacities scales
               rotations scale_modifier cov3Ds viewmatrix projmatrix focal_x focal_y tan_fovx
               tan_fovy campos dL_dmean2D' dL_dconic dL_dinvdepth dL_dcolor antialiasing
               (b\<lparr>dL_dmeans := prior\<rparr>)) (int idx)
            = dL_dmeans (BACKWARD_preprocess aux P D M means3D radii dc shs clamped opacities
               scales rotations scale_modifier cov3Ds viewmatrix projmatrix focal_x focal_y tan_fovx
               tan_fovy campos dL_dmean2D' dL_dconic dL_dinvdepth dL_dcolor antialiasing b)
               (int idx))"
proof -
  have P: "0 \<le> P" "P < 2 ^ 64" using assms(1,2) by simp_all
  then have m: "P mod 2 ^ 64 = P" by simp
  have g: "idx < grid_threads P"
    using P(1) assms(1,2) by (rule grid_threads_covers)
  have lt: "int idx < P mod 2 ^ 64" using assms(2) m by simp
  have v: "dL_dmeans (BACKWARD_preprocess aux P D M means3D radii dc shs clamped opacities scales
             rotations scale_modifier cov3Ds viewmatrix projmatrix focal_x focal_y tan_fovx
             tan_fovy campos dL_dmean2D' dL_dconic dL_dinvdepth dL_dcolor antialiasing c)
           (int idx)
         = snd (snd (cov2D_thread aux (int idx) means3D cov3Ds focal_x focal_y tan_fovx tan_fovy
                  viewmatrix opacities dL_dconic dL_dinvdepth antialiasing
                  (dL_dopacity c (int idx))))
           + proj_dL_dmean aux (means3D (int idx)) projmatrix (dL_dmean2D' (int idx))
           + (case shs of
                None \<Rightarrow> 0
              | Some shs' \<Rightarrow> snd (snd (sh_thread aux (int idx) D M means3D campos shs' clamped
                                         (vec3_at dL_dcolor))))" for c
    unfolding BACKWARD_preprocess_def Let_def
    by (simp only: launch_preprocessCUDA_dL_dmeans [where radii = radii, OF g lt assms(3)]
          launch_computeCov2DCUDA_dL_dmeans [where radii = radii, OF g lt assms(3)])
  show ?thesis
    by (simp add: v)
qed

lemma demo_cov_mean:
  "snd (snd (cov2D_thread demo_aux 0 demo_means round_cov3Ds 1 1 1 1 identity4 (\<lambda>i. 1)
          (\<lambda>k. if k = 0 then 1 else 0) (\<lambda>i. 1) False v))
   = float3 0 0 (863999/1296001)"
proof -
  have tr: "transformVec4x3Transpose demo_aux (float3 p q r) identity4 = float3 p q r" for p q r
    by (simp add: demo_aux_def identity4_def)
  have cw: "cov2D_W identity4 = mat3 1 0 0 0 1 0 0 0 1"
    by (simp add: cov2D_W_def identity4_def)
  show ?thesis
    by (simp add: cov2D_thread_def Let_def split_beta demo_t demo_T round_cov2D
        conic_grads_general antialias_scale_def antialias_grads_def conic_dc_def
        cov2D_dL_dmean_def cw tr cov2D_Vrk_def round_cov3Ds_def denom2inv_of_def h_var_def
        mat3_def)
qed

lemma demo_proj_mean:
  "proj_dL_dmean demo_aux (demo_means 0) identity4 (float4 1 0 0 0)
   = float3 (10000000/10000001) 0 0"
  by (simp add: proj_dL_dmean_def m_w_of_def Let_def demo_aux_def demo_means_def identity4_def)

theorem mean_gradient_overwrite_then_accumulate_witness:
  "(1::int) + 255 < 2 ^ 31 \<and> int 0 < 1 \<and> (0::int) < 1
   \<and> dL_dmeans (BACKWARD_preprocess demo_aux 1 0 0 demo_means (\<lambda>i. 1) (\<lambda>i. 0) None
         (\<lambda>i. False) (\<lambda>i. 1) None (\<lambda>i. float4 1 0 0 0) 1 round_cov3Ds identity4 identity4
         1 1 1 1 (float3 0 0 0) (\<lambda>i. float4 1 0 0 0) (\<lambda>k. if k = 0 then 1 else 0) (\<lambda>i. 1)
         (\<lambda>i. 0) False (demo_buffers\<lparr>dL_dmeans := \<lambda>i. float3 7 7 7\<rparr>)) (int 0)
       = float3 (10000000/10000001) 0 (863999/1296001)"
proof -
  have h1: "(1::int) + 255 < 2 ^ 31" by simp
  have h2: "int 0 < 1" by simp
  have h3: "(\<lambda>i::int. 1::int) (int 0) > 0" by simp
  from mean_gradient_overwrite_then_accumulate [where radii = "\<lambda>i. 1" and aux = demo_aux
      and D = 0 and M = 0 and means3D = demo_means and dc = "\<lambda>i. 0" and shs = None
      and clamped = "\<lambda>i. False" and opacities = "\<lambda>i. 1" and scales = None
      and rotations = "\<lambda>i. float4 1 0 0 0" and scale_modifier = 1 and cov3Ds = round_cov3Ds
      and viewmatrix = identity4 and projmatrix = identity4 and focal_x = 1 and focal_y = 1
      and tan_fovx = 1 and tan_fovy = 1 and campos = "float3 0 0 0"
      and dL_dmean2D' = "\<lambda>i. float4 1 0 0 0" and dL_dconic = "\<lambda>k. if k = 0 then 1 else 0"
      and dL_dinvdepth = "\<lambda>i. 1" and dL_dcolor = "\<lambda>i. 0" and antialiasing = False
      and b = "demo_buffers\<lparr>dL_dmeans := \<lambda>i. float3 7 7 7\<rparr>", OF h1 h2 h3]
  have "dL_dmeans (BACKWARD_preprocess demo_aux 1 0 0 demo_means (\<lambda>i. 1) (\<lambda>i. 0) None
         (\<lambda>i. False) (\<lambda>i. 1) None (\<lambda>i. float4 1 0 0 0) 1 round_cov3Ds identity4 identity4
         1 1 1 1 (float3 0 0 0) (\<lambda>i. float4 1 0 0 0) (\<lambda>k. if k = 0 then 1 else 0) (\<lambda>i. 1)
         (\<lambda>i. 0) False (demo_buffers\<lparr>dL_dmeans := \<lambda>i. float3 7 7 7\<rparr>)) (int 0)
       = float3 (10000000/10000001) 0 (863999/1296001)"
    by (simp add: demo_cov_mean demo_proj_mean [unfolded demo_means_def] demo_means_def
        plus_float3_def zero_float3_def)
  then show ?thesis by simp
qed

subsection \<open>Divisions and their guards\<close>

lemma h_convolution_scaling_lower: "1/200 \<le> h_convolution_scaling c_xx c_xy c_yy"
proof -
  have "(1/200)\<^sup>2 \<le> max 0.000025
      ((c_xx * c_yy - c_xy * c_xy) / ((c_xx + h_var) * (c_yy + h_var) - c_xy * c_xy))"
    by (simp add: power2_eq_square)
  then show ?thesis
    unfolding h_convolution_scaling_def Let_def by (rule real_le_rsqrt)
qed

text \<open>
  Claim C8, as amended. Two divisions have a small epsilon added to the denominator:
  the reciprocal of line 251, whose denominator is therefore positive whatever the
  determinant and which is \<open>10000000\<close> at determinant zero, and the reciprocal of the
  clip-space \<open>w\<close> of line 427, which is \<open>10000000\<close> at \<open>w = 0\<close>. Two more are kept
  away from zero by a clamp: \<open>1 - alpha\<close> is at least 0.01 (lines 597, 608, 616 and
  619), and twice the anti-aliasing scaling factor is at least 0.01 (lines 218 and
  222).
\<close>

theorem guarded_divisions_nonzero:
  "0 < denom2inv_of d \<and> denom2inv_of 0 = 10000000 \<and> m_w_of 0 = 10000000
   \<and> 1/100 \<le> 1 - alpha_of s pixf
   \<and> 1/100 \<le> 2 * h_convolution_scaling c_xx c_xy c_yy"
proof -
  have "alpha_of s pixf \<le> 99/100" by (simp add: alpha_of_def)
  then have a: "1/100 \<le> 1 - alpha_of s pixf" by simp
  have h: "1/100 \<le> 2 * h_convolution_scaling c_xx c_xy c_yy"
    using h_convolution_scaling_lower [of c_xx c_xy c_yy] by simp
  have z: "denom2inv_of 0 = 10000000" "m_w_of 0 = 10000000"
    by (simp_all add: denom2inv_of_def m_w_of_def)
  from denom2inv_pos [of d] a h z show ?thesis by simp
qed

text \<open>
  Claim C8 as stated fails: the kernels also divide by input-derived quantities to
  which nothing is added. Line 519 divides by \<^verbatim>\<open>depths[gaussian_idx]\<close>: in
  \<open>flat_scene\<close> lane 0 of the second bucket holds a valid primitive whose depth is 0.
  Lines 179, 180, 187, 188 and 306 divide by the camera-space depth \<open>t.z\<close>: for the
  primitive at the camera centre, which passes the guard of line 165, it is 0.
\<close>

theorem unguarded_division_counterexample:
  "valid_splat (load_splat flat_scene 3 1 0)
   \<and> depths flat_scene (gaussian_idx (load_splat flat_scene 3 1 0)) = 0
   \<and> invd (load_splat flat_scene 3 1 0)
       = 1 / depths flat_scene (gaussian_idx (load_splat flat_scene 3 1 0))
   \<and> int 0 < 1 mod 2 ^ 64 \<and> (\<lambda>i::int. 1::int) (int 0) > 0
   \<and> z3 (transformPoint4x3 demo_aux (camera_plane_means (int 0)) identity4) = 0"
proof -
  have l: "load_splat flat_scene 3 1 0 = visible_splat\<lparr>invd := 1 / 0\<rparr>"
    by (simp add: load_splat_def Let_def bucket_idx_in_tile_def bbm_of_def tile_id_of_def
        num_splats_in_tile_def demo_scene_def flat_scene_def visible_splat_def fun_eq_iff)
  have t: "transformPoint4x3 demo_aux (camera_plane_means (int 0)) identity4 = float3 0 0 0"
    by (simp add: demo_aux_def camera_plane_means_def identity4_def)
  show ?thesis
    unfolding l t by (simp add: visible_splat_def flat_scene_def)
qed

end
